theory Spec2Isabelle
  imports Main "HOL-Library.AList"
begin

section \<open>Python values\<close>

text \<open>
  The dummy backend of \<^verbatim>\<open>openeo/rest/_testing.py\<close> handles parsed JSON bodies, so the
  values it stores are JSON values. A Python \<^verbatim>\<open>dict\<close> keeps its insertion order: it is
  an association list, read with \<open>map_of\<close> and written with \<open>AList.update\<close> (an
  existing key keeps its place, a new key goes to the end, as in Python). Text and bytes
  are both \<open>string\<close>; floating point numbers are left out of \<open>json\<close>.
\<close>

datatype json =
    JNull
  | JBool bool
  | JInt int
  | JStr string
  | JArr "json list"
  | JObj "(string \<times> json) list"

type_synonym bytes = string
type_synonym dict = "(string \<times> json) list"

text \<open>A value that \<^verbatim>\<open>next_result\<close> can hold: \<^verbatim>\<open>bytes\<close>, or anything JSON-like
  (\<^verbatim>\<open>str\<close>, \<^verbatim>\<open>dict\<close>, \<^verbatim>\<open>list\<close>, \<^verbatim>\<open>None\<close>, ...).\<close>

datatype pyval = PyBytes bytes | PyData json

text \<open>The three messages of \<^verbatim>\<open>OpeneoTestingException\<close>, with the values that the
  f-strings interpolate kept as arguments:
  \<^item> \<^verbatim>\<open>Failed to extract job_id from {request.path}\<close>
  \<^item> \<^verbatim>\<open>Expected single process graph, but collected {len(pgs)}\<close>
  \<^item> \<^verbatim>\<open>Expected single process graph node with process_id {process_id!r}, but found {len(found)}: {found}\<close>\<close>

datatype testing_message =
    FailedToExtractJobId string
  | ExpectedSinglePG nat
  | ExpectedSingleNode string nat "json list"

datatype error =
    OpeneoTestingException testing_message
  | AssertionError
  | KeyError string
  | TypeError
  | AttributeError
  | IndexError

text \<open>\<^verbatim>\<open>obj[key]\<close> with a \<^verbatim>\<open>str\<close> key: a missing key of a dict is a KeyError, and
  every other JSON value refuses a \<^verbatim>\<open>str\<close> subscript with a TypeError.\<close>

fun getitem :: "json \<Rightarrow> string \<Rightarrow> error + json" where
  "getitem (JObj d) key = (case map_of d key of None \<Rightarrow> Inl (KeyError key) | Some v \<Rightarrow> Inr v)"
| "getitem _ key = Inl TypeError"

text \<open>\<^verbatim>\<open>d.get(key)\<close> on a dict: \<^verbatim>\<open>None\<close> for a missing key.\<close>

definition dict_get :: "dict \<Rightarrow> string \<Rightarrow> json" where
  "dict_get d key = (case map_of d key of None \<Rightarrow> JNull | Some v \<Rightarrow> v)"

section \<open>The backend state\<close>

text \<open>
  \<^verbatim>\<open>job_status_updater\<close> is a Python callable, possibly a closure with state of its own
  (as the one of \<^verbatim>\<open>setup_simple_job_status_flow\<close>): a function of the job id, the
  current status and its private state \<open>'h\<close>, returning the next status (or raising) and
  the new private state. The \<^verbatim>\<open>connection\<close> slot only builds URLs and is left out.
\<close>

record 'h backend =
  sync_requests :: "json list"
  batch_jobs :: "(string \<times> dict) list"
  validation_requests :: "json list"
  next_result :: pyval
  next_validation_errors :: json
  extra_job_metadata_fields :: "string list"
  job_status_updater :: "string \<Rightarrow> json \<Rightarrow> 'h \<Rightarrow> (error + string) \<times> 'h"
  updater_state :: 'h

record request =
  path :: string
  json_body :: json

record response_context =
  status_code :: nat
  headers :: "(string \<times> string) list"

definition DEFAULT_RESULT :: bytes where
  "DEFAULT_RESULT = ''{\"what?\": \"Result data\"}''"

definition DummyBackend_init :: "unit backend" where
  "DummyBackend_init =
     \<lparr>sync_requests = [],
      batch_jobs = [],
      validation_requests = [],
      next_result = PyBytes DEFAULT_RESULT,
      next_validation_errors = JArr [],
      extra_job_metadata_fields = [],
      job_status_updater = (\<lambda>job_id current_status h. (Inr ''finished'', h)),
      updater_state = ()\<rparr>"

section \<open>Handlers\<close>

text \<open>
  A handler returns its result (or the exception it raises) and the backend as the call
  leaves it: what was mutated before a raise stays mutated. \<^verbatim>\<open>json.dumps\<close> and
  \<^verbatim>\<open>str.encode("utf-8")\<close> are library functions, taken as parameters.
\<close>

definition handle_post_result ::
  "(json \<Rightarrow> string) \<Rightarrow> (string \<Rightarrow> bytes) \<Rightarrow> 'h backend \<Rightarrow> request \<Rightarrow> (error + bytes) \<times> 'h backend" where
  "handle_post_result json_dumps encode_utf8 self request =
     (case getitem (json_body request) ''process'' of
        Inl e \<Rightarrow> (Inl e, self)
      | Inr process \<Rightarrow>
     (case getitem process ''process_graph'' of
        Inl e \<Rightarrow> (Inl e, self)
      | Inr pg \<Rightarrow>
          let self' = self\<lparr>sync_requests := sync_requests self @ [pg]\<rparr> in
          (case next_result self of
             PyData (JObj d) \<Rightarrow> (Inr (encode_utf8 (json_dumps (JObj d))), self')
           | PyData (JArr l) \<Rightarrow> (Inr (encode_utf8 (json_dumps (JArr l))), self')
           | PyData (JStr s) \<Rightarrow> (Inr (encode_utf8 s), self')
           | PyBytes b \<Rightarrow> (Inr b, self')
           | _ \<Rightarrow> (Inl AssertionError, self'))))"

text \<open>Python's \<^verbatim>\<open>f"{n:03d}"\<close> for a length: the decimal digits, zero-padded to width 3.\<close>

fun decimal :: "nat \<Rightarrow> string" where
  "decimal n = (if n < 10 then [''0123456789'' ! n]
                else decimal (n div 10) @ [''0123456789'' ! (n mod 10)])"

declare decimal.simps [simp del]

definition format_03d :: "nat \<Rightarrow> string" where
  "format_03d n = replicate (3 - length (decimal n)) (CHR ''0'') @ decimal n"

text \<open>The id \<^verbatim>\<open>f"job-{len(self.batch_jobs):03d}"\<close> for a registry of \<open>n\<close> jobs.\<close>

definition new_job_id :: "nat \<Rightarrow> string" where
  "new_job_id n = ''job-'' @ format_03d n"

text \<open>The record \<^verbatim>\<open>job_data\<close> that \<^verbatim>\<open>_handle_post_jobs\<close> builds: the three initial
  entries, then \<^verbatim>\<open>title\<close> and \<^verbatim>\<open>description\<close> when the body has them, then every
  extra metadata field with \<^verbatim>\<open>post_data.get(field)\<close>.\<close>

definition new_job_data :: "string list \<Rightarrow> dict \<Rightarrow> string \<Rightarrow> json \<Rightarrow> dict" where
  "new_job_data extra_fields post_data job_id pg =
     (let job_data = [(''job_id'', JStr job_id), (''pg'', pg), (''status'', JStr ''created'')];
          job_data = fold (\<lambda>field jd. case map_of post_data field of
                             Some v \<Rightarrow> AList.update field v jd | None \<Rightarrow> jd)
                       [''title'', ''description''] job_data;
          job_data = fold (\<lambda>field jd. AList.update field (dict_get post_data field) jd)
                       extra_fields job_data
      in job_data)"

definition handle_post_jobs ::
  "'h backend \<Rightarrow> request \<Rightarrow> response_context \<Rightarrow> (error + response_context) \<times> 'h backend" where
  "handle_post_jobs self request context =
     (case json_body request of
        JObj post_data \<Rightarrow>
          (case map_of post_data ''process'' of
             None \<Rightarrow> (Inl (KeyError ''process''), self)
           | Some process \<Rightarrow>
          (case getitem process ''process_graph'' of
             Inl e \<Rightarrow> (Inl e, self)
           | Inr pg \<Rightarrow>
               let job_id = new_job_id (length (batch_jobs self));
                   job_data = new_job_data (extra_job_metadata_fields self) post_data job_id pg
               in (Inr (context\<lparr>status_code := 201,
                                headers := AList.update ''openeo-identifier'' job_id (headers context)\<rparr>),
                   self\<lparr>batch_jobs := AList.update job_id job_data (batch_jobs self)\<rparr>)))
      | _ \<Rightarrow> (Inl TypeError, self))"

text \<open>
  \<^verbatim>\<open>re.match(r"^/jobs/(job-\d+)(/|$)", path)\<close>: the literal prefix, then the longest run
  of digits (a shorter run would be followed by a digit, which is neither \<^verbatim>\<open>/\<close> nor the
  end, so backtracking finds nothing more), which must not be empty, then a slash or the
  end of the string; \<^verbatim>\<open>$\<close> also matches just before a newline that ends the string.
  Group 1 is \<^verbatim>\<open>job-\<close> with the digits. The characters of a path are 8-bit here, and
  among those \<^verbatim>\<open>\d\<close> matches the ten ASCII digits only.
\<close>

definition is_digit :: "char \<Rightarrow> bool" where
  "is_digit c = (c \<in> set ''0123456789'')"

fun strip_prefix :: "string \<Rightarrow> string \<Rightarrow> string option" where
  "strip_prefix [] s = Some s"
| "strip_prefix (p # ps) [] = None"
| "strip_prefix (p # ps) (c # cs) = (if p = c then strip_prefix ps cs else None)"

definition match_job_path :: "string \<Rightarrow> string option" where
  "match_job_path p =
     (case strip_prefix ''/jobs/job-'' p of
        None \<Rightarrow> None
      | Some rest \<Rightarrow>
          let ds = takeWhile is_digit rest; tail = dropWhile is_digit rest in
          if ds = [] then None
          else if tail = [] \<or> tail = [CHR 0x0A] \<or> take 1 tail = ''/'' then Some (''job-'' @ ds)
          else None)"

definition get_job_id :: "'h backend \<Rightarrow> request \<Rightarrow> error + string" where
  "get_job_id self request =
     (case match_job_path (path request) of
        None \<Rightarrow> Inl (OpeneoTestingException (FailedToExtractJobId (path request)))
      | Some job_id \<Rightarrow>
          if map_of (batch_jobs self) job_id = None then Inl AssertionError else Inr job_id)"

text \<open>\<^verbatim>\<open>self.batch_jobs[job_id]["status"]\<close>, read and written.\<close>

definition job_status :: "'h backend \<Rightarrow> string \<Rightarrow> error + json" where
  "job_status self job_id =
     (case map_of (batch_jobs self) job_id of
        None \<Rightarrow> Inl (KeyError job_id)
      | Some job_data \<Rightarrow>
          (case map_of job_data ''status'' of None \<Rightarrow> Inl (KeyError ''status'') | Some s \<Rightarrow> Inr s))"

definition set_job_status :: "'h backend \<Rightarrow> string \<Rightarrow> json \<Rightarrow> 'h backend" where
  "set_job_status self job_id s =
     (case map_of (batch_jobs self) job_id of
        None \<Rightarrow> self
      | Some job_data \<Rightarrow>
          self\<lparr>batch_jobs := AList.update job_id (AList.update ''status'' s job_data) (batch_jobs self)\<rparr>)"

text \<open>The call \<^verbatim>\<open>self.job_status_updater(job_id=..., current_status=...)\<close> followed by the
  store of its result; the updater's private state is kept also when it raises.\<close>

definition update_status :: "'h backend \<Rightarrow> string \<Rightarrow> json \<Rightarrow> (error + string) \<times> 'h backend" where
  "update_status self job_id current_status =
     (case job_status_updater self job_id current_status (updater_state self) of
        (Inl e, h) \<Rightarrow> (Inl e, self\<lparr>updater_state := h\<rparr>)
      | (Inr s, h) \<Rightarrow> (Inr s, set_job_status (self\<lparr>updater_state := h\<rparr>) job_id (JStr s)))"

definition handle_post_job_results ::
  "'h backend \<Rightarrow> request \<Rightarrow> response_context \<Rightarrow> (error + response_context) \<times> 'h backend" where
  "handle_post_job_results self request context =
     (case get_job_id self request of
        Inl e \<Rightarrow> (Inl e, self)
      | Inr job_id \<Rightarrow>
     (case job_status self job_id of
        Inl e \<Rightarrow> (Inl e, self)
      | Inr status \<Rightarrow>
          if status \<noteq> JStr ''created'' then (Inl AssertionError, self)
          else (case update_status self job_id status of
                  (Inl e, self') \<Rightarrow> (Inl e, self')
                | (Inr s, self') \<Rightarrow> (Inr (context\<lparr>status_code := 202\<rparr>), self'))))"

definition handle_get_job :: "'h backend \<Rightarrow> request \<Rightarrow> (error + json) \<times> 'h backend" where
  "handle_get_job self request =
     (case get_job_id self request of
        Inl e \<Rightarrow> (Inl e, self)
      | Inr job_id \<Rightarrow>
     (case job_status self job_id of
        Inl e \<Rightarrow> (Inl e, self)
      | Inr status \<Rightarrow>
          if status \<noteq> JStr ''created''
          then (case update_status self job_id status of
                  (Inl e, self') \<Rightarrow> (Inl e, self')
                | (Inr s, self') \<Rightarrow>
                    (Inr (JObj [(''id'', JStr job_id), (''status'', JStr s)]), self'))
          else (Inr (JObj [(''id'', JStr job_id), (''status'', status)]), self)))"

definition handle_get_job_result_asset :: "'h backend \<Rightarrow> request \<Rightarrow> (error + pyval) \<times> 'h backend" where
  "handle_get_job_result_asset self request =
     (case get_job_id self request of
        Inl e \<Rightarrow> (Inl e, self)
      | Inr job_id \<Rightarrow>
     (case job_status self job_id of
        Inl e \<Rightarrow> (Inl e, self)
      | Inr status \<Rightarrow>
          if status \<noteq> JStr ''finished'' then (Inl AssertionError, self)
          else (Inr (next_result self), self)))"

section \<open>Inspection of the captured process graphs\<close>

text \<open>\<^verbatim>\<open>[b["pg"] for b in self.batch_jobs.values()]\<close>\<close>

fun job_pgs :: "dict list \<Rightarrow> error + json list" where
  "job_pgs [] = Inr []"
| "job_pgs (b # bs) =
     (case map_of b ''pg'' of
        None \<Rightarrow> Inl (KeyError ''pg'')
      | Some pg \<Rightarrow> (case job_pgs bs of Inl e \<Rightarrow> Inl e | Inr pgs \<Rightarrow> Inr (pg # pgs)))"

text \<open>\<^verbatim>\<open>node.get(key)\<close> on a value of the graph: only a dict has \<^verbatim>\<open>get\<close>.\<close>

fun node_get :: "json \<Rightarrow> string \<Rightarrow> error + json" where
  "node_get (JObj d) key = Inr (dict_get d key)"
| "node_get _ key = Inl AttributeError"

text \<open>\<^verbatim>\<open>[node for node in pg.values() if node.get("process_id") == process_id]\<close>, over the
  values of the graph.\<close>

fun find_nodes :: "string \<Rightarrow> json list \<Rightarrow> error + json list" where
  "find_nodes process_id [] = Inr []"
| "find_nodes process_id (node # nodes) =
     (case node_get node ''process_id'' of
        Inl e \<Rightarrow> Inl e
      | Inr v \<Rightarrow>
          (case find_nodes process_id nodes of
             Inl e \<Rightarrow> Inl e
           | Inr found \<Rightarrow> Inr (if v = JStr process_id then node # found else found)))"

text \<open>\<^verbatim>\<open>if process_id:\<close> is false for \<^verbatim>\<open>None\<close> and for the empty string.\<close>

definition get_pg :: "'h backend \<Rightarrow> string option \<Rightarrow> error + json" where
  "get_pg self process_id =
     (case job_pgs (map snd (batch_jobs self)) of
        Inl e \<Rightarrow> Inl e
      | Inr batch_pgs \<Rightarrow>
          let pgs = sync_requests self @ batch_pgs in
          (case pgs of
             [pg] \<Rightarrow>
               (case process_id of
                  None \<Rightarrow> Inr pg
                | Some p \<Rightarrow>
                    if p = [] then Inr pg
                    else (case pg of
                            JObj nodes \<Rightarrow>
                              (case find_nodes p (map snd nodes) of
                                 Inl e \<Rightarrow> Inl e
                               | Inr found \<Rightarrow>
                                   (case found of
                                      [node] \<Rightarrow> Inr node
                                    | _ \<Rightarrow> Inl (OpeneoTestingException
                                                 (ExpectedSingleNode p (length found) found))))
                          | _ \<Rightarrow> Inl AttributeError))
           | _ \<Rightarrow> Inl (OpeneoTestingException (ExpectedSinglePG (length pgs)))))"

section \<open>The scripted job status flow\<close>

text \<open>
  \<^verbatim>\<open>job_stacks\<close> is a \<^verbatim>\<open>defaultdict(template.copy)\<close>: reading a job id that has no stack
  yet stores a copy of the template for it. \<^verbatim>\<open>get_status\<close> pops the first item of the
  stack while it has more than one, and reads \<^verbatim>\<open>stack[0]\<close> otherwise.
\<close>

type_synonym job_stacks = "string \<Rightarrow> string list option"

definition get_status ::
  "string list \<Rightarrow> string \<Rightarrow> json \<Rightarrow> job_stacks \<Rightarrow> (error + string) \<times> job_stacks" where
  "get_status template job_id current_status job_stacks =
     (let stack = (case job_stacks job_id of None \<Rightarrow> template | Some s \<Rightarrow> s) in
      case stack of
        [] \<Rightarrow> (Inl IndexError, job_stacks(job_id \<mapsto> stack))
      | [x] \<Rightarrow> (Inr x, job_stacks(job_id \<mapsto> stack))
      | x # rest \<Rightarrow> (Inr x, job_stacks(job_id \<mapsto> rest)))"

text \<open>A Python list times a negative number is empty, as \<open>replicate (nat n)\<close> is.\<close>

definition setup_simple_job_status_flow ::
  "'h backend \<Rightarrow> int \<Rightarrow> int \<Rightarrow> string \<Rightarrow> job_stacks backend" where
  "setup_simple_job_status_flow self queued running final =
     (let template = replicate (nat queued) ''queued'' @ replicate (nat running) ''running'' @ [final]
      in \<lparr>sync_requests = sync_requests self,
          batch_jobs = batch_jobs self,
          validation_requests = validation_requests self,
          next_result = next_result self,
          next_validation_errors = next_validation_errors self,
          extra_job_metadata_fields = extra_job_metadata_fields self,
          job_status_updater = get_status template,
          updater_state = Map.empty\<rparr>)"

section \<open>Request sequences and example states\<close>

text \<open>A client polling a job: \<open>n\<close> consecutive \<^verbatim>\<open>GET /jobs/{job_id}\<close> requests, with
  the responses in order.\<close>

fun get_job_repeatedly :: "nat \<Rightarrow> 'h backend \<Rightarrow> request \<Rightarrow> (error + json) list \<times> 'h backend" where
  "get_job_repeatedly 0 self request = ([], self)"
| "get_job_repeatedly (Suc n) self request =
     (case handle_get_job self request of
        (r, self') \<Rightarrow>
          (case get_job_repeatedly n self' request of (rs, self'') \<Rightarrow> (r # rs, self'')))"

text \<open>A status updater that counts its calls, to observe whether a handler called it.\<close>

definition counting_updater :: "string \<Rightarrow> json \<Rightarrow> nat \<Rightarrow> (error + string) \<times> nat" where
  "counting_updater job_id current_status calls = (Inr ''running'', Suc calls)"

definition created_job_backend :: "nat backend" where
  "created_job_backend =
     \<lparr>sync_requests = [],
      batch_jobs = [(''job-000'', [(''job_id'', JStr ''job-000''), (''pg'', JObj []),
                                  (''status'', JStr ''created'')])],
      validation_requests = [],
      next_result = PyBytes DEFAULT_RESULT,
      next_validation_errors = JArr [],
      extra_job_metadata_fields = [],
      job_status_updater = counting_updater,
      updater_state = 0\<rparr>"

definition running_job_backend :: "nat backend" where
  "running_job_backend =
     \<lparr>sync_requests = [],
      batch_jobs = [(''job-000'', [(''job_id'', JStr ''job-000''), (''pg'', JObj []),
                                  (''status'', JStr ''running'')])],
      validation_requests = [],
      next_result = PyBytes DEFAULT_RESULT,
      next_validation_errors = JArr [],
      extra_job_metadata_fields = [],
      job_status_updater = counting_updater,
      updater_state = 1\<rparr>"

definition start_request :: request where
  "start_request = \<lparr>path = ''/jobs/job-000/results'', json_body = JNull\<rparr>"

definition get_request :: request where
  "get_request = \<lparr>path = ''/jobs/job-000'', json_body = JNull\<rparr>"

definition fresh_context :: response_context where
  "fresh_context = \<lparr>status_code = 200, headers = []\<rparr>"

text \<open>A sequence of calls of a status updater, each with a job id and a current status,
  threading the updater's private state; and the stack that the scripted updater holds
  for a job id (the template, as long as the \<^verbatim>\<open>defaultdict\<close> has no entry).\<close>

fun invoke_all :: "(string \<Rightarrow> json \<Rightarrow> 'h \<Rightarrow> (error + string) \<times> 'h) \<Rightarrow> (string \<times> json) list \<Rightarrow> 'h \<Rightarrow> 'h" where
  "invoke_all updater [] h = h"
| "invoke_all updater ((job_id, current_status) # calls) h =
     invoke_all updater calls (snd (updater job_id current_status h))"

definition stack_of :: "string list \<Rightarrow> job_stacks \<Rightarrow> string \<Rightarrow> string list" where
  "stack_of template job_stacks job_id = (case job_stacks job_id of None \<Rightarrow> template | Some s \<Rightarrow> s)"

text \<open>A test that sets up the scripted flow with the default counts on a new backend,
  creates a job and starts it.\<close>

definition create_request :: request where
  "create_request =
     \<lparr>path = ''/jobs'', json_body = JObj [(''process'', JObj [(''process_graph'', JObj [])])]\<rparr>"

definition flow_backend :: "job_stacks backend" where
  "flow_backend = setup_simple_job_status_flow DummyBackend_init 1 4 ''finished''"

definition flow_created_backend :: "job_stacks backend" where
  "flow_created_backend = snd (handle_post_jobs flow_backend create_request fresh_context)"

definition flow_started_backend :: "job_stacks backend" where
  "flow_started_backend = snd (handle_post_job_results flow_created_backend start_request fresh_context)"

text \<open>The result of \<^verbatim>\<open>_handle_get_job\<close> for a job id and a status.\<close>

definition job_response :: "string \<Rightarrow> string \<Rightarrow> error + json" where
  "job_response job_id s = Inr (JObj [(''id'', JStr job_id), (''status'', JStr s)])"

text \<open>
  The pattern \<^verbatim>\<open>^/jobs/(job-\d+)(/|$)\<close> read as a description of the paths it accepts:
  the literal \<^verbatim>\<open>/jobs/job-\<close>, one or more digits, and then the end of the path, a
  newline that ends the path, or a slash followed by anything; the job id is
  \<^verbatim>\<open>job-\<close> with those digits.
\<close>

definition job_path_pattern :: "string \<Rightarrow> string \<Rightarrow> bool" where
  "job_path_pattern p job_id \<longleftrightarrow>
     (\<exists>ds rest. p = ''/jobs/job-'' @ ds @ rest \<and> ds \<noteq> [] \<and> (\<forall>c\<in>set ds. is_digit c) \<and>
        (rest = [] \<or> rest = [CHR 0x0A] \<or> (\<exists>r. rest = CHR ''/'' # r)) \<and>
        job_id = ''job-'' @ ds)"

text \<open>A value of a process graph that is a node descriptor (a mapping), and the nodes
  of a flat graph whose \<^verbatim>\<open>process_id\<close> is a given string.\<close>

definition is_dict :: "json \<Rightarrow> bool" where
  "is_dict v = (case v of JObj d \<Rightarrow> True | _ \<Rightarrow> False)"

definition matching_nodes :: "string \<Rightarrow> dict \<Rightarrow> json list" where
  "matching_nodes p nodes = filter (\<lambda>node. node_get node ''process_id'' = Inr (JStr p)) (map snd nodes)"

text \<open>A process graph with one \<^verbatim>\<open>load_collection\<close> node, two \<^verbatim>\<open>save_result\<close>
  nodes and a node without \<^verbatim>\<open>process_id\<close>, and backends that captured it.\<close>

definition example_graph :: json where
  "example_graph =
     JObj [(''load1'', JObj [(''process_id'', JStr ''load_collection''), (''arguments'', JObj [])]),
           (''save2'', JObj [(''process_id'', JStr ''save_result''), (''arguments'', JObj [])]),
           (''save3'', JObj [(''process_id'', JStr ''save_result''), (''result'', JBool True)]),
           (''other'', JObj [(''arguments'', JObj [])])]"

definition sync_backend :: "unit backend" where
  "sync_backend = DummyBackend_init\<lparr>sync_requests := [example_graph]\<rparr>"

definition sync_and_batch_backend :: "nat backend" where
  "sync_and_batch_backend = created_job_backend\<lparr>sync_requests := [example_graph]\<rparr>"

text \<open>A backend that tracks the extra metadata field \<^verbatim>\<open>project\<close>, and a creation
  request with a title and without that field.\<close>

definition extra_fields_backend :: "unit backend" where
  "extra_fields_backend = DummyBackend_init\<lparr>extra_job_metadata_fields := [''project'']\<rparr>"

definition titled_request :: request where
  "titled_request =
     \<lparr>path = ''/jobs'',
      json_body = JObj [(''process'', JObj [(''process_graph'', JObj [])]), (''title'', JStr ''NDVI'')]\<rparr>"

text \<open>Reading a job id back: the number that its decimal digits after \<^verbatim>\<open>job-\<close>
  stand for.\<close>

definition digit_value :: "char \<Rightarrow> nat" where
  "digit_value c = length (takeWhile (\<lambda>d. d \<noteq> c) ''0123456789'')"

definition decimal_value :: "string \<Rightarrow> nat" where
  "decimal_value s = foldl (\<lambda>a c. 10 * a + digit_value c) 0 s"

definition job_number :: "string \<Rightarrow> nat" where
  "job_number job_id = decimal_value (drop 4 job_id)"

text \<open>A sequence of \<^verbatim>\<open>POST /jobs\<close> requests on one backend, each with the response
  context that the mock hands to the handler; the responses in order, and those of the
  requests that did not raise.\<close>

fun post_jobs_all ::
  "'h backend \<Rightarrow> (request \<times> response_context) list \<Rightarrow> (error + response_context) list \<times> 'h backend" where
  "post_jobs_all self [] = ([], self)"
| "post_jobs_all self ((request, context) # rest) =
     (case handle_post_jobs self request context of
        (r, self') \<Rightarrow> (case post_jobs_all self' rest of (rs, self'') \<Rightarrow> (r # rs, self'')))"

fun successes :: "(error + 'a) list \<Rightarrow> 'a list" where
  "successes [] = []"
| "successes (Inl e # rs) = successes rs"
| "successes (Inr x # rs) = x # successes rs"

text \<open>The registry holds the first \<open>n\<close> job ids in creation order; every job in the
  registry has the status \<^verbatim>\<open>created\<close>.\<close>

definition numbered :: "'h backend \<Rightarrow> nat \<Rightarrow> bool" where
  "numbered self n \<longleftrightarrow> map fst (batch_jobs self) = map new_job_id [0..<n]"

definition all_created :: "'h backend \<Rightarrow> bool" where
  "all_created self \<longleftrightarrow>
     (\<forall>job_data\<in>set (map snd (batch_jobs self)). map_of job_data ''status'' = Some (JStr ''created''))"

text \<open>A backend that tracks \<^verbatim>\<open>status\<close> as an extra metadata field, and three creation
  requests of which the second has no body.\<close>

definition status_field_backend :: "unit backend" where
  "status_field_backend = DummyBackend_init\<lparr>extra_job_metadata_fields := [''status'']\<rparr>"

definition three_requests :: "(request \<times> response_context) list" where
  "three_requests = [(create_request, fresh_context), (get_request, fresh_context),
                     (titled_request, fresh_context)]"

text \<open>A backend whose scripted result is the mapping \<^verbatim>\<open>{"a": 1}\<close>, with one job that
  was created and started under the default status updater; a request for the result
  asset of the job and a synchronous execution request.\<close>

definition dict_result_backend :: "unit backend" where
  "dict_result_backend =
     snd (handle_post_job_results
            (snd (handle_post_jobs (DummyBackend_init\<lparr>next_result := PyData (JObj [(''a'', JInt 1)])\<rparr>)
                    create_request fresh_context))
            start_request fresh_context)"

definition asset_request :: request where
  "asset_request = \<lparr>path = ''/jobs/job-000/results/result.data'', json_body = JNull\<rparr>"

definition sync_request :: request where
  "sync_request =
     \<lparr>path = ''/result'', json_body = JObj [(''process'', JObj [(''process_graph'', JObj [])])]\<rparr>"

text \<open>A creation request that carries the example graph, the backend after this one
  request, and the backend after the three creation requests.\<close>

definition graph_request :: request where
  "graph_request = \<lparr>path = ''/jobs'', json_body = JObj [(''process'', JObj [(''process_graph'', example_graph)])]\<rparr>"

definition graph_job_backend :: "unit backend" where
  "graph_job_backend = snd (handle_post_jobs DummyBackend_init graph_request fresh_context)"

definition two_jobs_backend :: "unit backend" where
  "two_jobs_backend = snd (post_jobs_all DummyBackend_init three_requests)"

section \<open>Properties\<close>

subsection \<open>Job lookup and status storage\<close>

lemma strip_prefix_iff: "strip_prefix p s = Some r \<longleftrightarrow> s = p @ r"
  by (induction p s rule: strip_prefix.induct) auto

lemma map_of_set_job_status_None:
  "map_of (batch_jobs (set_job_status self j v)) k = None \<longleftrightarrow> map_of (batch_jobs self) k = None"
  by (auto simp: set_job_status_def update_conv' split: option.splits)

lemma get_job_id_set_job_status [simp]:
  "get_job_id (set_job_status self j v) request = get_job_id self request"
  by (simp add: get_job_id_def map_of_set_job_status_None split: option.splits)

lemma get_job_id_updater_state [simp]:
  "get_job_id (self\<lparr>updater_state := h\<rparr>) request = get_job_id self request"
  by (simp add: get_job_id_def split: option.splits)

lemma get_job_id_known:
  "get_job_id self request = Inr job_id \<Longrightarrow> map_of (batch_jobs self) job_id \<noteq> None"
  by (auto simp: get_job_id_def split: option.splits if_splits)

lemma job_status_set_job_status_same:
  "map_of (batch_jobs self) job_id \<noteq> None \<Longrightarrow> job_status (set_job_status self job_id v) job_id = Inr v"
  by (auto simp: job_status_def set_job_status_def update_conv')

lemma job_status_updater_state [simp]:
  "job_status (self\<lparr>updater_state := h\<rparr>) j = job_status self j"
  by (simp add: job_status_def)

lemma set_job_status_fields [simp]:
  "job_status_updater (set_job_status self j v) = job_status_updater self"
  "updater_state (set_job_status self j v) = updater_state self"
  "next_result (set_job_status self j v) = next_result self"
  "sync_requests (set_job_status self j v) = sync_requests self"
  "extra_job_metadata_fields (set_job_status self j v) = extra_job_metadata_fields self"
  by (simp_all add: set_job_status_def split: option.splits)

lemma get_job_repeatedly_fixed:
  "handle_get_job self request = (r, self) \<Longrightarrow> get_job_repeatedly n self request = (replicate n r, self)"
  by (induction n) auto

lemma match_start_request: "match_job_path (path start_request) = Some ''job-000''"
  by (simp add: match_job_path_def start_request_def is_digit_def)

lemma match_get_request: "match_job_path (path get_request) = Some ''job-000''"
  by (simp add: match_job_path_def get_request_def is_digit_def)

subsection \<open>Reading the status of a job\<close>

text \<open>
  Claim C2. A status read of a job whose stored status is \<^verbatim>\<open>created\<close> answers
  \<^verbatim>\<open>created\<close> and leaves the whole backend, the private state of the status updater
  included, as it was: the updater is not called, whatever it is, and any number of
  reads in a row answer \<^verbatim>\<open>created\<close>. A read of a job in another status calls the
  updater with the job id and the stored status, stores the status it returns and
  answers with that status.
\<close>

theorem handle_get_job_status:
  assumes job: "get_job_id self request = Inr job_id"
    and status: "job_status self job_id = Inr status"
  shows "(status = JStr ''created'' \<longrightarrow>
            handle_get_job self request =
              (Inr (JObj [(''id'', JStr job_id), (''status'', JStr ''created'')]), self) \<and>
            (\<forall>n. get_job_repeatedly n self request =
              (replicate n (Inr (JObj [(''id'', JStr job_id), (''status'', JStr ''created'')])), self)))
       \<and> (status \<noteq> JStr ''created'' \<longrightarrow>
            (\<forall>s h. job_status_updater self job_id status (updater_state self) = (Inr s, h) \<longrightarrow>
               handle_get_job self request =
                 (Inr (JObj [(''id'', JStr job_id), (''status'', JStr s)]),
                  set_job_status (self\<lparr>updater_state := h\<rparr>) job_id (JStr s)) \<and>
               job_status (set_job_status (self\<lparr>updater_state := h\<rparr>) job_id (JStr s)) job_id
                 = Inr (JStr s)))"
proof (intro conjI impI allI)
  assume c: "status = JStr ''created''"
  show g: "handle_get_job self request =
          (Inr (JObj [(''id'', JStr job_id), (''status'', JStr ''created'')]), self)"
    using job status c by (simp add: handle_get_job_def)
  fix n
  show "get_job_repeatedly n self request =
          (replicate n (Inr (JObj [(''id'', JStr job_id), (''status'', JStr ''created'')])), self)"
    using g by (rule get_job_repeatedly_fixed)
next
  fix s h
  assume nc: "status \<noteq> JStr ''created''"
    and hook: "job_status_updater self job_id status (updater_state self) = (Inr s, h)"
  show "handle_get_job self request =
          (Inr (JObj [(''id'', JStr job_id), (''status'', JStr s)]),
           set_job_status (self\<lparr>updater_state := h\<rparr>) job_id (JStr s))"
    using job status nc hook by (simp add: handle_get_job_def update_status_def)
  show "job_status (set_job_status (self\<lparr>updater_state := h\<rparr>) job_id (JStr s)) job_id = Inr (JStr s)"
    using get_job_id_known [OF job] by (simp add: job_status_set_job_status_same)
qed

theorem handle_get_job_status_witness:
  "(get_job_id created_job_backend get_request = Inr ''job-000'' \<and>
    job_status created_job_backend ''job-000'' = Inr (JStr ''created'') \<and>
    get_job_repeatedly 3 created_job_backend get_request =
      (replicate 3 (Inr (JObj [(''id'', JStr ''job-000''), (''status'', JStr ''created'')])),
       created_job_backend) \<and>
    updater_state (snd (handle_get_job created_job_backend get_request)) = 0)
   \<and> (get_job_id running_job_backend get_request = Inr ''job-000'' \<and>
      job_status running_job_backend ''job-000'' = Inr (JStr ''running'') \<and>
      JStr ''running'' \<noteq> JStr ''created'' \<and>
      job_status_updater running_job_backend ''job-000'' (JStr ''running'') (updater_state running_job_backend)
        = (Inr ''running'', 2) \<and>
      fst (handle_get_job running_job_backend get_request) =
        Inr (JObj [(''id'', JStr ''job-000''), (''status'', JStr ''running'')]) \<and>
      updater_state (snd (handle_get_job running_job_backend get_request)) = 2)"
proof -
  have a1: "get_job_id created_job_backend get_request = Inr ''job-000''"
    by (simp add: get_job_id_def match_get_request created_job_backend_def)
  have a2: "job_status created_job_backend ''job-000'' = Inr (JStr ''created'')"
    by (simp add: job_status_def created_job_backend_def)
  have b1: "get_job_id running_job_backend get_request = Inr ''job-000''"
    by (simp add: get_job_id_def match_get_request running_job_backend_def)
  have b2: "job_status running_job_backend ''job-000'' = Inr (JStr ''running'')"
    by (simp add: job_status_def running_job_backend_def)
  have b3: "job_status_updater running_job_backend ''job-000'' (JStr ''running'')
              (updater_state running_job_backend) = (Inr ''running'', 2)"
    by (simp add: running_job_backend_def counting_updater_def)
  note A = handle_get_job_status [OF a1 a2, THEN conjunct1, rule_format]
  note B = handle_get_job_status [OF b1 b2, THEN conjunct2, rule_format, of "''running''" 2]
  have "updater_state created_job_backend = 0"
    by (simp add: created_job_backend_def)
  then show ?thesis
    using A B a1 a2 b1 b2 b3 by simp
qed

subsection \<open>Starting a job\<close>

text \<open>
  Claim C3. A start request for a job id that is not in the registry, or for a job whose
  stored status is not \<^verbatim>\<open>created\<close>, fails on an assertion and changes nothing. For a
  job in status \<^verbatim>\<open>created\<close> it calls the status updater with the job id and
  \<^verbatim>\<open>created\<close>, stores the status the updater returns and sets the response code 202;
  when that status is not \<^verbatim>\<open>created\<close>, a second start of the same job fails on the
  assertion and changes nothing.
\<close>

theorem handle_post_job_results_start:
  "(\<forall>job_id. match_job_path (path request) = Some job_id \<and> map_of (batch_jobs self) job_id = None \<longrightarrow>
      handle_post_job_results self request context = (Inl AssertionError, self))
   \<and> (\<forall>job_id status. get_job_id self request = Inr job_id \<and> job_status self job_id = Inr status \<and>
        status \<noteq> JStr ''created'' \<longrightarrow>
      handle_post_job_results self request context = (Inl AssertionError, self))
   \<and> (\<forall>job_id s h. get_job_id self request = Inr job_id \<and>
        job_status self job_id = Inr (JStr ''created'') \<and>
        job_status_updater self job_id (JStr ''created'') (updater_state self) = (Inr s, h) \<longrightarrow>
      handle_post_job_results self request context =
        (Inr (context\<lparr>status_code := 202\<rparr>), set_job_status (self\<lparr>updater_state := h\<rparr>) job_id (JStr s)) \<and>
      job_status (set_job_status (self\<lparr>updater_state := h\<rparr>) job_id (JStr s)) job_id = Inr (JStr s) \<and>
      (s \<noteq> ''created'' \<longrightarrow>
         handle_post_job_results (set_job_status (self\<lparr>updater_state := h\<rparr>) job_id (JStr s)) request context' =
           (Inl AssertionError, set_job_status (self\<lparr>updater_state := h\<rparr>) job_id (JStr s))))"
proof (intro conjI allI impI; (elim conjE)?)
  fix job_id
  assume "match_job_path (path request) = Some job_id" "map_of (batch_jobs self) job_id = None"
  then show "handle_post_job_results self request context = (Inl AssertionError, self)"
    by (simp add: handle_post_job_results_def get_job_id_def)
next
  fix job_id status
  assume "get_job_id self request = Inr job_id" "job_status self job_id = Inr status"
    "status \<noteq> JStr ''created''"
  then show "handle_post_job_results self request context = (Inl AssertionError, self)"
    by (simp add: handle_post_job_results_def)
next
  fix job_id s h
  assume job: "get_job_id self request = Inr job_id"
    and status: "job_status self job_id = Inr (JStr ''created'')"
    and hook: "job_status_updater self job_id (JStr ''created'') (updater_state self) = (Inr s, h)"
  let ?started = "set_job_status (self\<lparr>updater_state := h\<rparr>) job_id (JStr s)"
  show "handle_post_job_results self request context = (Inr (context\<lparr>status_code := 202\<rparr>), ?started)"
    using job status hook by (simp add: handle_post_job_results_def update_status_def)
  show stored: "job_status ?started job_id = Inr (JStr s)"
    using get_job_id_known [OF job] by (simp add: job_status_set_job_status_same)
  assume "s \<noteq> ''created''"
  then show "handle_post_job_results ?started request context' = (Inl AssertionError, ?started)"
    using job stored by (simp add: handle_post_job_results_def)
qed

theorem handle_post_job_results_start_witness:
  "(match_job_path (path start_request) = Some ''job-000'' \<and>
    map_of (batch_jobs DummyBackend_init) ''job-000'' = None \<and>
    handle_post_job_results DummyBackend_init start_request fresh_context =
      (Inl AssertionError, DummyBackend_init))
   \<and> (get_job_id running_job_backend start_request = Inr ''job-000'' \<and>
      job_status running_job_backend ''job-000'' = Inr (JStr ''running'') \<and>
      JStr ''running'' \<noteq> JStr ''created'' \<and>
      handle_post_job_results running_job_backend start_request fresh_context =
        (Inl AssertionError, running_job_backend))
   \<and> (get_job_id created_job_backend start_request = Inr ''job-000'' \<and>
      job_status created_job_backend ''job-000'' = Inr (JStr ''created'') \<and>
      job_status_updater created_job_backend ''job-000'' (JStr ''created'') (updater_state created_job_backend)
        = (Inr ''running'', 1) \<and>
      fst (handle_post_job_results created_job_backend start_request fresh_context) =
        Inr (fresh_context\<lparr>status_code := 202\<rparr>) \<and>
      job_status (snd (handle_post_job_results created_job_backend start_request fresh_context)) ''job-000'' =
        Inr (JStr ''running'') \<and>
      fst (handle_post_job_results
             (snd (handle_post_job_results created_job_backend start_request fresh_context))
             start_request fresh_context) = Inl AssertionError)"
proof -
  have a1: "map_of (batch_jobs DummyBackend_init) ''job-000'' = None"
    by (simp add: DummyBackend_init_def)
  have b1: "get_job_id running_job_backend start_request = Inr ''job-000''"
    by (simp add: get_job_id_def match_start_request running_job_backend_def)
  have b2: "job_status running_job_backend ''job-000'' = Inr (JStr ''running'')"
    by (simp add: job_status_def running_job_backend_def)
  have c1: "get_job_id created_job_backend start_request = Inr ''job-000''"
    by (simp add: get_job_id_def match_start_request created_job_backend_def)
  have c2: "job_status created_job_backend ''job-000'' = Inr (JStr ''created'')"
    by (simp add: job_status_def created_job_backend_def)
  have c3: "job_status_updater created_job_backend ''job-000'' (JStr ''created'')
              (updater_state created_job_backend) = (Inr ''running'', 1)"
    by (simp add: created_job_backend_def counting_updater_def)
  note A = handle_post_job_results_start [of start_request DummyBackend_init fresh_context fresh_context,
      THEN conjunct1, rule_format, of "''job-000''"]
  note B = handle_post_job_results_start [of start_request running_job_backend fresh_context fresh_context,
      THEN conjunct2, THEN conjunct1, rule_format, of "''job-000''" "JStr ''running''"]
  note C = handle_post_job_results_start [of start_request created_job_backend fresh_context fresh_context,
      THEN conjunct2, THEN conjunct2, rule_format, of "''job-000''" "''running''" 1]
  show ?thesis
    using A B C match_start_request a1 b1 b2 c1 c2 c3 by simp
qed

subsection \<open>The scripted status updater\<close>

lemma get_status_result:
  "fst (get_status t j c st) = (case stack_of t st j of [] \<Rightarrow> Inl IndexError | x # r \<Rightarrow> Inr x)"
  by (simp add: get_status_def stack_of_def Let_def split: list.splits option.splits)

lemma get_status_stack:
  "stack_of t (snd (get_status t j c st)) k =
     (if k = j then (if 1 < length (stack_of t st j) then tl (stack_of t st j) else stack_of t st j)
      else stack_of t st k)"
  by (simp add: get_status_def stack_of_def Let_def split: list.splits option.splits)

lemma invoke_all_append:
  "invoke_all u (xs @ ys) h = invoke_all u ys (invoke_all u xs h)"
  by (induction u xs h rule: invoke_all.induct) auto

lemma drop_advance:
  "(if 1 < length (drop (min n (length t - 1)) t) then tl (drop (min n (length t - 1)) t)
    else drop (min n (length t - 1)) t) = drop (min (Suc n) (length t - 1)) t"
proof (cases "n < length t - 1")
  case True
  then have "min n (length t - 1) = n" "min (Suc n) (length t - 1) = Suc n" by simp_all
  moreover have "1 < length t - n" using True by arith
  ultimately show ?thesis by (simp add: drop_Suc tl_drop)
next
  case False
  then have "min n (length t - 1) = length t - 1" "min (Suc n) (length t - 1) = length t - 1" by simp_all
  moreover have "\<not> 1 < length t - (length t - 1)" by arith
  ultimately show ?thesis by simp
qed

lemma stack_after_calls:
  "stack_of t (invoke_all (get_status t) calls Map.empty) j =
     drop (min (count_list (map fst calls) j) (length t - 1)) t"
proof (induction calls rule: rev_induct)
  case Nil
  then show ?case by (simp add: stack_of_def)
next
  case (snoc c calls)
  obtain k cs where c: "c = (k, cs)" by (cases c)
  let ?st = "invoke_all (get_status t) calls Map.empty"
  show ?case
  proof (cases "k = j")
    case True
    have "stack_of t (invoke_all (get_status t) (calls @ [c]) Map.empty) j =
            (if 1 < length (stack_of t ?st j) then tl (stack_of t ?st j) else stack_of t ?st j)"
      by (simp add: c True invoke_all_append get_status_stack)
    also have "\<dots> = drop (min (Suc (count_list (map fst calls) j)) (length t - 1)) t"
      unfolding snoc by (rule drop_advance)
    finally show ?thesis by (simp add: c True)
  next
    case False
    then show ?thesis
      using snoc by (simp add: c invoke_all_append get_status_stack)
  qed
qed

lemma hd_drop_min: "t \<noteq> [] \<Longrightarrow> drop (min n (length t - 1)) t = t ! min n (length t - 1) # drop (Suc (min n (length t - 1))) t"
proof -
  assume "t \<noteq> []"
  then have "min n (length t - 1) < length t" by (cases t) auto
  then show ?thesis by (rule Cons_nth_drop_Suc [symmetric])
qed

lemma updater_of_setup:
  "job_status_updater (setup_simple_job_status_flow self queued running final) =
     get_status (replicate (nat queued) ''queued'' @ replicate (nat running) ''running'' @ [final])"
  by (simp add: setup_simple_job_status_flow_def)

text \<open>
  Claim C9. The status updater that \<^verbatim>\<open>setup_simple_job_status_flow\<close> installs returns,
  after any sequence of earlier calls (for any job ids, with any current statuses), the
  entry of the template at the number of earlier calls for the same job id, capped at the
  last entry; and on equal stacks two calls that differ only in the current status return
  the same status and leave the same stacks. The current status is never read.
\<close>

theorem scripted_status_ignores_current_status:
  "(let updater = job_status_updater (setup_simple_job_status_flow self queued running final);
        template = replicate (nat queued) ''queued'' @ replicate (nat running) ''running'' @ [final]
    in fst (updater job_id current_status (invoke_all updater calls Map.empty)) =
         Inr (template ! min (count_list (map fst calls) job_id) (length template - 1))
       \<and> updater job_id current_status job_stacks = updater job_id other_status job_stacks)"
proof -
  let ?t = "replicate (nat queued) ''queued'' @ replicate (nat running) ''running'' @ [final]"
  have ne: "?t \<noteq> []" by simp
  have "fst (get_status ?t job_id current_status (invoke_all (get_status ?t) calls Map.empty)) =
         Inr (?t ! min (count_list (map fst calls) job_id) (length ?t - 1))"
    unfolding get_status_result stack_after_calls
    by (subst hd_drop_min [OF ne]) simp
  moreover have "get_status ?t job_id current_status job_stacks = get_status ?t job_id other_status job_stacks"
    by (simp add: get_status_def)
  ultimately show ?thesis
    unfolding updater_of_setup Let_def by blast
qed

subsection \<open>Status reads under the scripted flow\<close>

lemma get_status_step:
  "st j = Some (x # r) \<Longrightarrow>
     get_status t j c st = (Inr x, st(j \<mapsto> (if r = [] then [x] else r)))"
  by (cases r) (simp_all add: get_status_def)

lemma get_status_first:
  "st j = None \<Longrightarrow> t = x # r \<Longrightarrow>
     get_status t j c st = (Inr x, st(j \<mapsto> (if r = [] then [x] else r)))"
  by (cases r) (simp_all add: get_status_def)

lemma poll_flow:
  assumes "job_status_updater self = get_status t"
    and "updater_state self job_id = Some s" and "s \<noteq> []" and "''created'' \<notin> set s"
    and "get_job_id self request = Inr job_id"
    and "job_status self job_id = Inr (JStr st)" and "st \<noteq> ''created''"
  shows "fst (get_job_repeatedly n self request) =
           map (\<lambda>i. job_response job_id (s ! min i (length s - 1))) [0..<n]"
  using assms
proof (induction n arbitrary: self s st)
  case 0
  then show ?case by simp
next
  case (Suc n)
  obtain x r where s: "s = x # r" using Suc.prems(3) by (cases s) auto
  let ?s' = "if r = [] then [x] else r"
  let ?self' = "set_job_status (self\<lparr>updater_state := (updater_state self)(job_id \<mapsto> ?s')\<rparr>) job_id (JStr x)"
  have hook: "job_status_updater self job_id (JStr st) (updater_state self) =
                (Inr x, (updater_state self)(job_id \<mapsto> ?s'))"
    using Suc.prems(1,2) by (simp add: s get_status_step)
  have step: "handle_get_job self request = (job_response job_id x, ?self')"
    using Suc.prems(5,6,7) hook
    by (simp add: handle_get_job_def update_status_def job_response_def)
  have known: "map_of (batch_jobs self) job_id \<noteq> None"
    using Suc.prems(5) by (rule get_job_id_known)
  have x: "x \<noteq> ''created''" using Suc.prems(4) by (auto simp: s)
  have IH: "fst (get_job_repeatedly n ?self' request) =
              map (\<lambda>i. job_response job_id (?s' ! min i (length ?s' - 1))) [0..<n]"
  proof (rule Suc.IH)
    show "job_status_updater ?self' = get_status t" using Suc.prems(1) by simp
    show "updater_state ?self' job_id = Some ?s'" by simp
    show "?s' \<noteq> []" by simp
    show "''created'' \<notin> set ?s'" using Suc.prems(4) by (auto simp: s)
    show "get_job_id ?self' request = Inr job_id" using Suc.prems(5) by simp
    show "job_status ?self' job_id = Inr (JStr x)"
      using known by (simp add: job_status_set_job_status_same)
    show "x \<noteq> ''created''" by (rule x)
  qed
  have idx: "?s' ! min i (length ?s' - 1) = s ! min (Suc i) (length s - 1)" for i
    by (cases r) (simp_all add: s)
  have IH': "fst (get_job_repeatedly n ?self' request) =
               map (\<lambda>i. job_response job_id (s ! min (Suc i) (length s - 1))) [0..<n]"
    using IH by (simp only: idx)
  have x0: "s ! min 0 (length s - 1) = x" by (simp add: s)
  have "fst (get_job_repeatedly (Suc n) self request) =
          job_response job_id x # fst (get_job_repeatedly n ?self' request)"
    by (simp add: step split: prod.splits)
  also have "\<dots> = job_response job_id (s ! min 0 (length s - 1)) #
                   map (\<lambda>i. job_response job_id (s ! min (Suc i) (length s - 1))) [0..<n]"
    by (simp only: IH' x0)
  also have "\<dots> = map (\<lambda>i. job_response job_id (s ! min i (length s - 1))) [0..<Suc n]"
    by (rule map_upt_Suc [symmetric])
  finally show ?case .
qed

lemma simple_flow_template:
  "replicate (nat 1) ''queued'' @ replicate (nat 4) ''running'' @ [''finished''] =
     [''queued'', ''running'', ''running'', ''running'', ''running'', ''finished'']"
  by (simp add: eval_nat_numeral)

lemma simple_flow_index:
  "[''running'', ''running'', ''running'', ''running'', ''finished''] ! min i (length [''running'', ''running'', ''running'', ''running'', ''finished''] - 1)
     = (if i < 4 then ''running'' else ''finished'')"
proof (cases "i < 4")
  case True
  then have "i = 0 \<or> i = 1 \<or> i = 2 \<or> i = 3" by arith
  then show ?thesis by auto
next
  case False
  then have "min i 4 = 4" by simp
  with False show ?thesis by simp
qed

text \<open>
  Claim C1, as amended. With the scripted flow of one \<^verbatim>\<open>queued\<close>, four
  \<^verbatim>\<open>running\<close> and the final \<^verbatim>\<open>finished\<close>, for a job in status \<^verbatim>\<open>created\<close> that
  the updater has not seen yet: the start request takes the first entry of the script and
  stores \<^verbatim>\<open>queued\<close>; each of the next four status reads answers \<^verbatim>\<open>running\<close>; the
  fifth read and every later one answers \<^verbatim>\<open>finished\<close>.
\<close>

theorem simple_job_status_flow_reads:
  assumes updater: "job_status_updater self =
                      job_status_updater (setup_simple_job_status_flow b 1 4 ''finished'')"
    and fresh: "updater_state self job_id = None"
    and start: "get_job_id self start = Inr job_id"
    and get: "get_job_id self get = Inr job_id"
    and created: "job_status self job_id = Inr (JStr ''created'')"
  shows "\<exists>started.
           handle_post_job_results self start context = (Inr (context\<lparr>status_code := 202\<rparr>), started) \<and>
           job_status started job_id = Inr (JStr ''queued'') \<and>
           (\<forall>n. fst (get_job_repeatedly n started get) =
                  map (\<lambda>i. Inr (JObj [(''id'', JStr job_id),
                                       (''status'', JStr (if i < 4 then ''running'' else ''finished''))]))
                      [0..<n])"
proof -
  let ?t = "[''queued'', ''running'', ''running'', ''running'', ''running'', ''finished'']"
  let ?s = "[''running'', ''running'', ''running'', ''running'', ''finished'']"
  let ?started = "set_job_status (self\<lparr>updater_state := (updater_state self)(job_id \<mapsto> ?s)\<rparr>)
                    job_id (JStr ''queued'')"
  have u: "job_status_updater self = get_status ?t"
    using updater by (simp only: updater_of_setup simple_flow_template)
  have hook: "job_status_updater self job_id (JStr ''created'') (updater_state self) =
                (Inr ''queued'', (updater_state self)(job_id \<mapsto> ?s))"
    unfolding u
    using fresh get_status_first [where st = "updater_state self" and j = job_id and t = ?t
                                   and x = "''queued''" and r = ?s and c = "JStr ''created''"]
    by simp
  have known: "map_of (batch_jobs self) job_id \<noteq> None"
    using start by (rule get_job_id_known)
  have 1: "handle_post_job_results self start context = (Inr (context\<lparr>status_code := 202\<rparr>), ?started)"
    using start created hook by (simp add: handle_post_job_results_def update_status_def)
  have 2: "job_status ?started job_id = Inr (JStr ''queued'')"
    using known by (simp add: job_status_set_job_status_same)
  have 3: "fst (get_job_repeatedly n ?started get) =
             map (\<lambda>i. Inr (JObj [(''id'', JStr job_id),
                                  (''status'', JStr (if i < 4 then ''running'' else ''finished''))]))
                 [0..<n]" for n
  proof -
    have "fst (get_job_repeatedly n ?started get) =
            map (\<lambda>i. job_response job_id (?s ! min i (length ?s - 1))) [0..<n]"
    proof (rule poll_flow)
      show "job_status_updater ?started = get_status ?t" using u by simp
      show "updater_state ?started job_id = Some ?s" by simp
      show "?s \<noteq> []" by simp
      show "''created'' \<notin> set ?s" by simp
      show "get_job_id ?started get = Inr job_id" using get by simp
      show "job_status ?started job_id = Inr (JStr ''queued'')" by (rule 2)
      show "''queued'' \<noteq> ''created''" by simp
    qed
    then show ?thesis
      by (simp only: simple_flow_index job_response_def)
  qed
  from 1 2 3 show ?thesis by blast
qed

lemma handle_post_jobs_updater:
  "job_status_updater (snd (handle_post_jobs self request context)) = job_status_updater self"
  "updater_state (snd (handle_post_jobs self request context)) = updater_state self"
  by (simp_all add: handle_post_jobs_def Let_def split: json.splits option.splits sum.splits)

theorem simple_job_status_flow_reads_witness:
  "job_status_updater flow_created_backend =
     job_status_updater (setup_simple_job_status_flow DummyBackend_init 1 4 ''finished'') \<and>
   updater_state flow_created_backend ''job-000'' = None \<and>
   get_job_id flow_created_backend start_request = Inr ''job-000'' \<and>
   get_job_id flow_created_backend get_request = Inr ''job-000'' \<and>
   job_status flow_created_backend ''job-000'' = Inr (JStr ''created'') \<and>
   fst (handle_post_job_results flow_created_backend start_request fresh_context) =
     Inr (fresh_context\<lparr>status_code := 202\<rparr>) \<and>
   job_status flow_started_backend ''job-000'' = Inr (JStr ''queued'') \<and>
   fst (get_job_repeatedly 6 flow_started_backend get_request) =
     map (job_response ''job-000'')
       [''running'', ''running'', ''running'', ''running'', ''finished'', ''finished'']"
proof -
  have h1: "job_status_updater flow_created_backend =
              job_status_updater (setup_simple_job_status_flow DummyBackend_init 1 4 ''finished'')"
    by (simp add: flow_created_backend_def flow_backend_def handle_post_jobs_updater)
  have h2: "updater_state flow_created_backend ''job-000'' = None"
    by (simp add: flow_created_backend_def flow_backend_def handle_post_jobs_updater
          setup_simple_job_status_flow_def)
  have h3: "get_job_id flow_created_backend start_request = Inr ''job-000''"
    by code_simp
  have h4: "get_job_id flow_created_backend get_request = Inr ''job-000''"
    by code_simp
  have h5: "job_status flow_created_backend ''job-000'' = Inr (JStr ''created'')"
    by code_simp
  from simple_job_status_flow_reads [OF h1 h2 h3 h4 h5, of fresh_context]
  obtain started where
    s1: "handle_post_job_results flow_created_backend start_request fresh_context =
           (Inr (fresh_context\<lparr>status_code := 202\<rparr>), started)"
    and s2: "job_status started ''job-000'' = Inr (JStr ''queued'')"
    and s3: "\<And>n. fst (get_job_repeatedly n started get_request) =
               map (\<lambda>i. Inr (JObj [(''id'', JStr ''job-000''),
                                    (''status'', JStr (if i < 4 then ''running'' else ''finished''))]))
                   [0..<n]"
    by blast
  have st: "started = flow_started_backend"
    by (simp add: flow_started_backend_def s1)
  have six: "[0..<6] = [0, 1, 2, 3, 4, 5::nat]"
    by (simp add: upt_rec)
  have "fst (get_job_repeatedly 6 flow_started_backend get_request) =
     map (job_response ''job-000'')
       [''running'', ''running'', ''running'', ''running'', ''finished'', ''finished'']"
    using s3 [of 6] unfolding st six by (simp add: job_response_def)
  then show ?thesis
    using h1 h2 h3 h4 h5 s1 s2 st by simp
qed

text \<open>
  The claim as written expects the reads after the start to answer \<^verbatim>\<open>queued\<close> once and
  then \<^verbatim>\<open>running\<close> four times. On a new backend with one job, the five reads after
  the start answer \<^verbatim>\<open>running\<close> four times and then \<^verbatim>\<open>finished\<close>.
\<close>

theorem simple_job_status_flow_counterexample:
  "fst (handle_post_job_results flow_created_backend start_request fresh_context) =
     Inr (fresh_context\<lparr>status_code := 202\<rparr>) \<and>
   fst (get_job_repeatedly 5 flow_started_backend get_request) =
     map (job_response ''job-000'') [''running'', ''running'', ''running'', ''running'', ''finished''] \<and>
   fst (get_job_repeatedly 5 flow_started_backend get_request) \<noteq>
     map (job_response ''job-000'') [''queued'', ''running'', ''running'', ''running'', ''running'']"
  by code_simp

subsection \<open>Extracting the job id from a path\<close>

lemma not_digit [simp]: "\<not> is_digit (CHR ''/'')" "\<not> is_digit (CHR 0x0A)"
  by (simp_all add: is_digit_def)

lemma digits_then_stop:
  assumes "\<forall>c\<in>set ds. is_digit c" and "rest = [] \<or> rest = [CHR 0x0A] \<or> (\<exists>r. rest = CHR ''/'' # r)"
  shows "takeWhile is_digit (ds @ rest) = ds" and "dropWhile is_digit (ds @ rest) = rest"
proof -
  have "takeWhile is_digit rest = []" "dropWhile is_digit rest = rest"
    using assms(2) by auto
  then show "takeWhile is_digit (ds @ rest) = ds" "dropWhile is_digit (ds @ rest) = rest"
    using assms(1) by (simp_all add: takeWhile_append2 dropWhile_append2)
qed

lemma take1_slash: "take 1 tail = ''/'' \<longleftrightarrow> (\<exists>r. tail = CHR ''/'' # r)"
  by (cases tail) auto

lemma match_job_path_iff: "match_job_path p = Some job_id \<longleftrightarrow> job_path_pattern p job_id"
proof
  assume m: "match_job_path p = Some job_id"
  then obtain rest0 where r0: "strip_prefix ''/jobs/job-'' p = Some rest0"
    by (auto simp: match_job_path_def split: option.splits)
  let ?ds = "takeWhile is_digit rest0" and ?tail = "dropWhile is_digit rest0"
  from m r0 have ne: "?ds \<noteq> []"
    and stop: "?tail = [] \<or> ?tail = [CHR 0x0A] \<or> take 1 ?tail = ''/''"
    and j: "job_id = ''job-'' @ ?ds"
    by (auto simp: match_job_path_def Let_def split: if_splits)
  have "p = ''/jobs/job-'' @ ?ds @ ?tail"
    using r0 by (simp add: strip_prefix_iff)
  moreover have "\<forall>c\<in>set ?ds. is_digit c"
    by (auto dest: set_takeWhileD)
  moreover have "?tail = [] \<or> ?tail = [CHR 0x0A] \<or> (\<exists>r. ?tail = CHR ''/'' # r)"
    using stop by (simp only: take1_slash)
  ultimately show "job_path_pattern p job_id"
    unfolding job_path_pattern_def using ne j by blast
next
  assume "job_path_pattern p job_id"
  then obtain ds rest where p: "p = ''/jobs/job-'' @ ds @ rest" and ne: "ds \<noteq> []"
    and dig: "\<forall>c\<in>set ds. is_digit c"
    and stop: "rest = [] \<or> rest = [CHR 0x0A] \<or> (\<exists>r. rest = CHR ''/'' # r)"
    and j: "job_id = ''job-'' @ ds"
    unfolding job_path_pattern_def by blast
  have sp: "strip_prefix ''/jobs/job-'' p = Some (ds @ rest)"
    by (simp only: strip_prefix_iff p)
  have stop': "rest = [] \<or> rest = [CHR 0x0A] \<or> take 1 rest = ''/''"
    using stop by (simp only: take1_slash)
  show "match_job_path p = Some job_id"
    using ne stop' by (simp add: match_job_path_def sp digits_then_stop [OF dig stop] j)
qed

lemma match_job_path_None_iff: "match_job_path p = None \<longleftrightarrow> (\<forall>job_id. \<not> job_path_pattern p job_id)"
  by (simp add: match_job_path_iff [symmetric])

text \<open>
  Claim C7, as amended. The job id is extracted from a path of the form
  \<^verbatim>\<open>^/jobs/(job-\d+)(/|$)\<close>. A path that does not have this form raises the named
  \<^verbatim>\<open>OpeneoTestingException\<close> with the path in its message. A path of this form whose
  job id is not in the registry fails the \<^verbatim>\<open>assert\<close>, an AssertionError; a path
  whose job id is in the registry gives that job id.
\<close>

theorem get_job_id_result:
  "((\<forall>job_id. \<not> job_path_pattern (path request) job_id) \<longrightarrow>
      get_job_id self request = Inl (OpeneoTestingException (FailedToExtractJobId (path request))))
   \<and> (\<forall>job_id. job_path_pattern (path request) job_id \<and> map_of (batch_jobs self) job_id = None \<longrightarrow>
         get_job_id self request = Inl AssertionError)
   \<and> (\<forall>job_id. job_path_pattern (path request) job_id \<and> map_of (batch_jobs self) job_id \<noteq> None \<longrightarrow>
         get_job_id self request = Inr job_id)"
  by (auto simp: get_job_id_def match_job_path_iff [symmetric] split: option.splits)

theorem get_job_id_result_witness:
  "(match_job_path (path create_request) = None \<and>
    get_job_id DummyBackend_init create_request =
      Inl (OpeneoTestingException (FailedToExtractJobId ''/jobs'')))
   \<and> (match_job_path (path get_request) = Some ''job-000'' \<and>
      map_of (batch_jobs DummyBackend_init) ''job-000'' = None \<and>
      get_job_id DummyBackend_init get_request = Inl AssertionError)
   \<and> (map_of (batch_jobs created_job_backend) ''job-000'' \<noteq> None \<and>
      get_job_id created_job_backend get_request = Inr ''job-000'')"
proof -
  have m: "match_job_path (path create_request) = None"
    by (simp add: match_job_path_def create_request_def)
  have a: "\<forall>job_id. \<not> job_path_pattern (path create_request) job_id"
    unfolding match_job_path_None_iff [symmetric] by (rule m)
  have b: "job_path_pattern (path get_request) ''job-000''"
    using match_get_request by (simp only: match_job_path_iff)
  have c: "map_of (batch_jobs DummyBackend_init) ''job-000'' = None"
    by (simp add: DummyBackend_init_def)
  have d: "map_of (batch_jobs created_job_backend) ''job-000'' \<noteq> None"
    by (simp add: created_job_backend_def)
  have p: "path create_request = ''/jobs''"
    by (simp add: create_request_def)
  note A = get_job_id_result [of create_request DummyBackend_init, THEN conjunct1, rule_format, OF a [rule_format]]
  note B = get_job_id_result [of get_request DummyBackend_init, THEN conjunct2, THEN conjunct1, rule_format,
      of "''job-000''"]
  note C = get_job_id_result [of get_request created_job_backend, THEN conjunct2, THEN conjunct2, rule_format,
      of "''job-000''"]
  show ?thesis
    using A B C a b c d p m match_get_request by simp
qed

text \<open>
  The claim as written expects the named error also for an id that is not in the
  registry. On a new backend, the path \<^verbatim>\<open>/jobs/job-000\<close> matches the pattern and the
  lookup ends in the AssertionError.
\<close>

theorem get_job_id_unknown_counterexample:
  "match_job_path (path get_request) = Some ''job-000'' \<and>
   map_of (batch_jobs DummyBackend_init) ''job-000'' = None \<and>
   get_job_id DummyBackend_init get_request = Inl AssertionError"
  by (simp add: get_job_id_def match_job_path_def get_request_def is_digit_def DummyBackend_init_def)

subsection \<open>The single captured process graph\<close>

lemma find_nodes_dicts:
  "\<forall>node\<in>set nodes. is_dict node \<Longrightarrow>
     find_nodes p nodes = Inr (filter (\<lambda>node. node_get node ''process_id'' = Inr (JStr p)) nodes)"
proof (induction nodes)
  case Nil
  then show ?case by simp
next
  case (Cons node nodes)
  then obtain d where "node = JObj d" by (cases node) (auto simp: is_dict_def)
  with Cons show ?case by simp
qed

lemma find_nodes_not_dict:
  "\<not> (\<forall>node\<in>set nodes. is_dict node) \<Longrightarrow> find_nodes p nodes = Inl AttributeError"
proof (induction nodes)
  case Nil
  then show ?case by simp
next
  case (Cons node nodes)
  show ?case
  proof (cases node)
    case (JObj d)
    with Cons show ?thesis by (simp add: is_dict_def)
  qed simp_all
qed

lemma find_nodes_skip:
  assumes "map_of d ''process_id'' = None"
  shows "find_nodes p (before @ JObj d # after) = find_nodes p (before @ after)"
proof (cases "\<forall>node\<in>set (before @ after). is_dict node")
  case True
  then have "\<forall>node\<in>set (before @ JObj d # after). is_dict node"
    by (auto simp: is_dict_def)
  then show ?thesis
    using True assms by (simp add: find_nodes_dicts dict_get_def)
next
  case False
  then have "\<not> (\<forall>node\<in>set (before @ JObj d # after). is_dict node)"
    by auto
  then have "find_nodes p (before @ JObj d # after) = Inl AttributeError"
    by (rule find_nodes_not_dict)
  moreover have "find_nodes p (before @ after) = Inl AttributeError"
    using False by (rule find_nodes_not_dict)
  ultimately show ?thesis by simp
qed

lemma job_pgs_entries:
  "map (\<lambda>job_data. map_of job_data ''pg'') jobs = map Some pgs \<Longrightarrow> job_pgs jobs = Inr pgs"
proof (induction jobs arbitrary: pgs)
  case Nil
  then show ?case by simp
next
  case (Cons job_data jobs)
  then obtain pg rest where pgs: "pgs = pg # rest" by (cases pgs) auto
  with Cons.prems have "map_of job_data ''pg'' = Some pg"
    and "map (\<lambda>job_data. map_of job_data ''pg'') jobs = map Some rest"
    by simp_all
  with Cons.IH [of rest] show ?case by (simp add: pgs)
qed

text \<open>
  Claim C5. \<^verbatim>\<open>get_pg\<close> pools the synchronous graphs and the \<^verbatim>\<open>pg\<close> entries of the
  job records of the registry, in this order. When the number of synchronous graphs and
  jobs together is not 1 it raises the testing exception with that number; one
  synchronous graph and one batch job give 2. When the pool holds one graph, from a
  synchronous request or from a batch job, a call without a filter returns that graph,
  and a call with a filter (a non-empty \<^verbatim>\<open>process_id\<close>) on a graph of node mappings
  returns the node when exactly one node has that \<^verbatim>\<open>process_id\<close>, and otherwise raises
  the testing exception with the filter, the number of matching nodes and the matching
  nodes.
\<close>

theorem get_pg_single:
  assumes entries: "map (\<lambda>job_data. map_of job_data ''pg'') (map snd (batch_jobs self)) = map Some batch_pgs"
  shows "(length (sync_requests self) + length (batch_jobs self) \<noteq> 1 \<longrightarrow>
            get_pg self process_id =
              Inl (OpeneoTestingException
                    (ExpectedSinglePG (length (sync_requests self) + length (batch_jobs self)))))
       \<and> (length (sync_requests self) = 1 \<and> length (batch_jobs self) = 1 \<longrightarrow>
            get_pg self process_id = Inl (OpeneoTestingException (ExpectedSinglePG 2)))
       \<and> (\<forall>pg. sync_requests self @ batch_pgs = [pg] \<longrightarrow>
            get_pg self None = Inr pg \<and>
            (\<forall>p nodes. p \<noteq> [] \<and> pg = JObj nodes \<and> (\<forall>node\<in>set (map snd nodes). is_dict node) \<longrightarrow>
               (\<forall>node. matching_nodes p nodes = [node] \<longrightarrow>
                  get_pg self (Some p) = Inr node) \<and>
               (length (matching_nodes p nodes) \<noteq> 1 \<longrightarrow>
                  get_pg self (Some p) =
                    Inl (OpeneoTestingException
                          (ExpectedSingleNode p
                             (length (matching_nodes p nodes))
                             (matching_nodes p nodes))))))"
proof (intro conjI allI impI; (elim conjE)?)
  have pool: "job_pgs (map snd (batch_jobs self)) = Inr batch_pgs"
    using entries by (rule job_pgs_entries)
  have "length (map (\<lambda>job_data. map_of job_data ''pg'') (map snd (batch_jobs self))) =
          length (map Some batch_pgs)"
    by (simp only: entries)
  then have len: "length batch_pgs = length (batch_jobs self)"
    by simp
  {
    assume "length (sync_requests self) + length (batch_jobs self) \<noteq> 1"
    then have "length (sync_requests self @ batch_pgs) \<noteq> 1" by (simp add: len)
    then have "get_pg self process_id =
              Inl (OpeneoTestingException (ExpectedSinglePG (length (sync_requests self @ batch_pgs))))"
      using pool by (cases "sync_requests self @ batch_pgs" rule: list.exhaust [case_names Nil Cons])
        (auto simp: get_pg_def Let_def split: list.splits)
    then show "get_pg self process_id =
              Inl (OpeneoTestingException
                    (ExpectedSinglePG (length (sync_requests self) + length (batch_jobs self))))"
      by (simp add: len)
  }
  {
    assume "length (sync_requests self) = 1" "length (batch_jobs self) = 1"
    then obtain a b where "sync_requests self = [a]" "batch_pgs = [b]"
      unfolding len [symmetric] by (auto simp: length_Suc_conv)
    then show "get_pg self process_id = Inl (OpeneoTestingException (ExpectedSinglePG 2))"
      using pool by (simp add: get_pg_def)
  }
  fix pg
  assume one: "sync_requests self @ batch_pgs = [pg]"
  show "get_pg self None = Inr pg"
    using pool one by (simp add: get_pg_def)
  fix p :: string and nodes :: "(string \<times> json) list"
  assume p: "p \<noteq> []" and pg: "pg = JObj nodes" and dicts: "\<forall>node\<in>set (map snd nodes). is_dict node"
  define found where "found = matching_nodes p nodes"
  have f: "find_nodes p (map snd nodes) = Inr found"
    unfolding found_def matching_nodes_def using dicts by (rule find_nodes_dicts)
  have g: "get_pg self (Some p) =
             (case found of [node] \<Rightarrow> Inr node
              | _ \<Rightarrow> Inl (OpeneoTestingException (ExpectedSingleNode p (length found) found)))"
    using pool one p pg f by (simp add: get_pg_def)
  have "found = [node] \<longrightarrow> get_pg self (Some p) = Inr node" for node
    by (simp add: g)
  then show "matching_nodes p nodes = [node]
               \<Longrightarrow> get_pg self (Some p) = Inr node" for node
    unfolding found_def by blast
  have "length found \<noteq> 1 \<longrightarrow>
          get_pg self (Some p) = Inl (OpeneoTestingException (ExpectedSingleNode p (length found) found))"
    by (auto simp: g split: list.splits)
  then show "length (matching_nodes p nodes) \<noteq> 1 \<Longrightarrow>
          get_pg self (Some p) =
                    Inl (OpeneoTestingException
                          (ExpectedSingleNode p
                             (length (matching_nodes p nodes))
                             (matching_nodes p nodes)))"
    unfolding found_def by blast
qed

theorem get_pg_single_witness:
  "(map (\<lambda>job_data. map_of job_data ''pg'') (map snd (batch_jobs DummyBackend_init)) = map Some [] \<and>
    length (sync_requests DummyBackend_init) + length (batch_jobs DummyBackend_init) \<noteq> 1 \<and>
    get_pg DummyBackend_init None = Inl (OpeneoTestingException (ExpectedSinglePG 0)))
   \<and> (map (\<lambda>job_data. map_of job_data ''pg'') (map snd (batch_jobs sync_and_batch_backend)) =
        map Some [JObj []] \<and>
      length (sync_requests sync_and_batch_backend) = 1 \<and> length (batch_jobs sync_and_batch_backend) = 1 \<and>
      get_pg sync_and_batch_backend None = Inl (OpeneoTestingException (ExpectedSinglePG 2)))
   \<and> (map (\<lambda>job_data. map_of job_data ''pg'') (map snd (batch_jobs two_jobs_backend)) =
        map Some [JObj [], JObj []] \<and>
      length (sync_requests two_jobs_backend) + length (batch_jobs two_jobs_backend) \<noteq> 1 \<and>
      get_pg two_jobs_backend (Some ''load_collection'') = Inl (OpeneoTestingException (ExpectedSinglePG 2)))
   \<and> (map (\<lambda>job_data. map_of job_data ''pg'') (map snd (batch_jobs graph_job_backend)) =
        map Some [example_graph] \<and>
      sync_requests graph_job_backend @ [example_graph] = [example_graph] \<and>
      get_pg graph_job_backend None = Inr example_graph \<and>
      get_pg graph_job_backend (Some ''load_collection'') =
        Inr (JObj [(''process_id'', JStr ''load_collection''), (''arguments'', JObj [])]))
   \<and> (map (\<lambda>job_data. map_of job_data ''pg'') (map snd (batch_jobs sync_backend)) = map Some [] \<and>
      sync_requests sync_backend @ [] = [example_graph] \<and>
      get_pg sync_backend None = Inr example_graph \<and>
      get_pg sync_backend (Some ''load_collection'') =
        Inr (JObj [(''process_id'', JStr ''load_collection''), (''arguments'', JObj [])]) \<and>
      get_pg sync_backend (Some ''save_result'') =
        Inl (OpeneoTestingException (ExpectedSingleNode ''save_result'' 2
              [JObj [(''process_id'', JStr ''save_result''), (''arguments'', JObj [])],
               JObj [(''process_id'', JStr ''save_result''), (''result'', JBool True)]])) \<and>
      get_pg sync_backend (Some ''apply'') =
        Inl (OpeneoTestingException (ExpectedSingleNode ''apply'' 0 [])))"
proof -
  let ?nodes = "[(''load1'', JObj [(''process_id'', JStr ''load_collection''), (''arguments'', JObj [])]),
           (''save2'', JObj [(''process_id'', JStr ''save_result''), (''arguments'', JObj [])]),
           (''save3'', JObj [(''process_id'', JStr ''save_result''), (''result'', JBool True)]),
           (''other'', JObj [(''arguments'', JObj [])])]"
  have a: "map (\<lambda>job_data. map_of job_data ''pg'') (map snd (batch_jobs DummyBackend_init)) = map Some []"
    by (simp add: DummyBackend_init_def)
  have a': "length (sync_requests DummyBackend_init) + length (batch_jobs DummyBackend_init) \<noteq> 1"
    by (simp add: DummyBackend_init_def)
  have b: "map (\<lambda>job_data. map_of job_data ''pg'') (map snd (batch_jobs sync_and_batch_backend)) =
             map Some [JObj []]"
    by (simp add: sync_and_batch_backend_def created_job_backend_def)
  have b': "length (sync_requests sync_and_batch_backend) = 1"
    "length (batch_jobs sync_and_batch_backend) = 1"
    by (simp_all add: sync_and_batch_backend_def created_job_backend_def)
  have t: "map (\<lambda>job_data. map_of job_data ''pg'') (map snd (batch_jobs two_jobs_backend)) =
             map Some [JObj [], JObj []]"
    by code_simp
  have t': "length (sync_requests two_jobs_backend) + length (batch_jobs two_jobs_backend) = 2"
    by code_simp
  have j: "map (\<lambda>job_data. map_of job_data ''pg'') (map snd (batch_jobs graph_job_backend)) =
             map Some [example_graph]"
    by code_simp
  have j': "sync_requests graph_job_backend @ [example_graph] = [example_graph]"
    by code_simp
  have c: "map (\<lambda>job_data. map_of job_data ''pg'') (map snd (batch_jobs sync_backend)) = map Some []"
    by (simp add: sync_backend_def DummyBackend_init_def)
  have c': "sync_requests sync_backend @ [] = [example_graph]"
    by (simp add: sync_backend_def)
  have g: "example_graph = JObj ?nodes"
    by (simp add: example_graph_def)
  have d: "\<forall>node\<in>set (map snd ?nodes). is_dict node"
    by (simp add: is_dict_def)
  have m1: "matching_nodes ''load_collection'' ?nodes =
              [JObj [(''process_id'', JStr ''load_collection''), (''arguments'', JObj [])]]"
    by (simp add: matching_nodes_def dict_get_def)
  have m2: "matching_nodes ''save_result'' ?nodes =
              [JObj [(''process_id'', JStr ''save_result''), (''arguments'', JObj [])],
               JObj [(''process_id'', JStr ''save_result''), (''result'', JBool True)]]"
    by (simp add: matching_nodes_def dict_get_def)
  have m3: "matching_nodes ''apply'' ?nodes = []"
    by (simp add: matching_nodes_def dict_get_def)
  have A: "get_pg DummyBackend_init None = Inl (OpeneoTestingException (ExpectedSinglePG 0))"
    using get_pg_single [OF a, of None, THEN conjunct1] by (simp add: DummyBackend_init_def)
  have B: "get_pg sync_and_batch_backend None = Inl (OpeneoTestingException (ExpectedSinglePG 2))"
    using get_pg_single [OF b, of None, THEN conjunct2, THEN conjunct1] b' by simp
  have T: "get_pg two_jobs_backend (Some ''load_collection'') =
             Inl (OpeneoTestingException (ExpectedSinglePG 2))"
    using get_pg_single [OF t, of "Some ''load_collection''", THEN conjunct1] t' by simp
  note J = get_pg_single [OF j, of None, THEN conjunct2, THEN conjunct2, rule_format, OF j']
  have J1: "get_pg graph_job_backend None = Inr example_graph"
    using J by simp
  have J2: "get_pg graph_job_backend (Some ''load_collection'') =
        Inr (JObj [(''process_id'', JStr ''load_collection''), (''arguments'', JObj [])])"
    using J [THEN conjunct2, rule_format, of "''load_collection''" ?nodes, THEN conjunct1, rule_format, OF _ m1]
      g d by simp
  note C = get_pg_single [OF c, of None, THEN conjunct2, THEN conjunct2, rule_format, OF c']
  have C1: "get_pg sync_backend None = Inr example_graph"
    using C by simp
  have C2: "get_pg sync_backend (Some ''load_collection'') =
        Inr (JObj [(''process_id'', JStr ''load_collection''), (''arguments'', JObj [])])"
    using C [THEN conjunct2, rule_format, of "''load_collection''" ?nodes, THEN conjunct1, rule_format, OF _ m1]
      g d by simp
  have C3: "get_pg sync_backend (Some ''save_result'') =
        Inl (OpeneoTestingException (ExpectedSingleNode ''save_result'' 2
              [JObj [(''process_id'', JStr ''save_result''), (''arguments'', JObj [])],
               JObj [(''process_id'', JStr ''save_result''), (''result'', JBool True)]]))"
    using C [THEN conjunct2, rule_format, of "''save_result''" ?nodes, THEN conjunct2, rule_format]
      g d by (simp add: m2)
  have C4: "get_pg sync_backend (Some ''apply'') =
        Inl (OpeneoTestingException (ExpectedSingleNode ''apply'' 0 []))"
    using C [THEN conjunct2, rule_format, of "''apply''" ?nodes, THEN conjunct2, rule_format]
      g d by (simp add: m3)
  have t'': "length (sync_requests two_jobs_backend) + length (batch_jobs two_jobs_backend) \<noteq> 1"
    using t' by simp
  show ?thesis
    using a a' b b' t t'' j j' c c' A B T J1 J2 C1 C2 C3 C4 by simp
qed

lemma get_pg_sync_graph:
  "get_pg (self\<lparr>sync_requests := [JObj nodes]\<rparr>) (Some p) =
     (case job_pgs (map snd (batch_jobs self)) of
        Inl e \<Rightarrow> Inl e
      | Inr batch_pgs \<Rightarrow>
          if batch_pgs \<noteq> [] then Inl (OpeneoTestingException (ExpectedSinglePG (Suc (length batch_pgs))))
          else if p = [] then Inr (JObj nodes)
          else (case find_nodes p (map snd nodes) of
                  Inl e \<Rightarrow> Inl e
                | Inr found \<Rightarrow>
                    (case found of
                       [node] \<Rightarrow> Inr node
                     | _ \<Rightarrow> Inl (OpeneoTestingException (ExpectedSingleNode p (length found) found)))))"
  by (auto simp: get_pg_def split: sum.splits list.splits)

text \<open>
  Claim C10. For a node mapping without a \<^verbatim>\<open>process_id\<close> key, the lookup
  \<^verbatim>\<open>node.get("process_id")\<close> gives \<^verbatim>\<open>None\<close> and raises nothing; the filter of
  \<^verbatim>\<open>get_pg\<close> gives the same result with the node in the graph as without it, for every
  filter; and over a graph whose nodes are all mappings the filter returns, without an
  error, the nodes whose \<^verbatim>\<open>process_id\<close> is the filter.
\<close>

theorem find_nodes_skips_missing_process_id:
  assumes "map_of d ''process_id'' = None"
  shows "node_get (JObj d) ''process_id'' = Inr JNull
       \<and> find_nodes p (before @ JObj d # after) = find_nodes p (before @ after)
       \<and> (p \<noteq> [] \<longrightarrow>
            get_pg (self\<lparr>sync_requests := [JObj (xs @ (k, JObj d) # ys)]\<rparr>) (Some p) =
            get_pg (self\<lparr>sync_requests := [JObj (xs @ ys)]\<rparr>) (Some p))
       \<and> ((\<forall>node\<in>set nodes. is_dict node) \<longrightarrow>
            find_nodes p nodes = Inr (filter (\<lambda>node. node_get node ''process_id'' = Inr (JStr p)) nodes))"
proof (intro conjI impI)
  show "node_get (JObj d) ''process_id'' = Inr JNull"
    using assms by (simp add: dict_get_def)
  show "find_nodes p (before @ JObj d # after) = find_nodes p (before @ after)"
    using assms by (rule find_nodes_skip)
  show "get_pg (self\<lparr>sync_requests := [JObj (xs @ (k, JObj d) # ys)]\<rparr>) (Some p) =
        get_pg (self\<lparr>sync_requests := [JObj (xs @ ys)]\<rparr>) (Some p)" if "p \<noteq> []"
  proof -
    have "find_nodes p (map snd (xs @ (k, JObj d) # ys)) = find_nodes p (map snd (xs @ ys))"
      using find_nodes_skip [OF assms, of p "map snd xs" "map snd ys"] by simp
    then show ?thesis
      using that by (simp add: get_pg_sync_graph split: sum.splits)
  qed
  show "find_nodes p nodes = Inr (filter (\<lambda>node. node_get node ''process_id'' = Inr (JStr p)) nodes)"
    if "\<forall>node\<in>set nodes. is_dict node"
    using that by (rule find_nodes_dicts)
qed

theorem find_nodes_skips_missing_process_id_witness:
  "map_of [(''arguments'', JObj [])] ''process_id'' = None \<and>
   find_nodes ''save_result''
     ([JObj [(''process_id'', JStr ''save_result'')]] @ JObj [(''arguments'', JObj [])] # []) =
     Inr [JObj [(''process_id'', JStr ''save_result'')]] \<and>
   ''save_result'' \<noteq> [] \<and>
   get_pg (DummyBackend_init\<lparr>sync_requests :=
             [JObj ([(''save1'', JObj [(''process_id'', JStr ''save_result'')])] @
                    (''other'', JObj [(''arguments'', JObj [])]) # [])]\<rparr>) (Some ''save_result'') =
     Inr (JObj [(''process_id'', JStr ''save_result'')]) \<and>
   find_nodes ''save_result'' [JObj [(''process_id'', JStr ''save_result'')], JObj [(''arguments'', JObj [])]] =
     Inr [JObj [(''process_id'', JStr ''save_result'')]]"
proof -
  have h: "map_of [(''arguments'', JObj [])] ''process_id'' = None" by simp
  have e: "find_nodes ''save_result'' ([JObj [(''process_id'', JStr ''save_result'')]] @ []) =
             Inr [JObj [(''process_id'', JStr ''save_result'')]]"
    by (simp add: dict_get_def)
  have g: "get_pg (DummyBackend_init\<lparr>sync_requests :=
             [JObj ([(''save1'', JObj [(''process_id'', JStr ''save_result'')])] @ [])]\<rparr>) (Some ''save_result'') =
     Inr (JObj [(''process_id'', JStr ''save_result'')])"
    by (simp add: get_pg_def DummyBackend_init_def dict_get_def)
  have ne: "''save_result'' \<noteq> []" by simp
  note T = find_nodes_skips_missing_process_id [OF h, where p = "''save_result''"
      and before = "[JObj [(''process_id'', JStr ''save_result'')]]" and after = "[]"
      and self = DummyBackend_init
      and xs = "[(''save1'', JObj [(''process_id'', JStr ''save_result'')])]" and k = "''other''"
      and ys = "[]"
      and nodes = "[JObj [(''process_id'', JStr ''save_result'')], JObj [(''arguments'', JObj [])]]"]
  have d: "\<forall>node\<in>set [JObj [(''process_id'', JStr ''save_result'')], JObj [(''arguments'', JObj [])]]. is_dict node"
    by (simp add: is_dict_def)
  show ?thesis
    using T h e g ne d by (simp add: dict_get_def)
qed

subsection \<open>Creating a job\<close>

lemma map_of_fold_update:
  "map_of (fold (\<lambda>field jd. AList.update field (g field) jd) fs jd0) k =
     (if k \<in> set fs then Some (g k) else map_of jd0 k)"
  by (induction fs arbitrary: jd0) (auto simp: update_conv')

lemma map_of_fold_update_present:
  "map_of (fold (\<lambda>field jd. case map_of pd field of Some v \<Rightarrow> AList.update field v jd | None \<Rightarrow> jd)
             fs jd0) k =
     (if k \<in> set fs \<and> map_of pd k \<noteq> None then map_of pd k else map_of jd0 k)"
proof (induction fs arbitrary: jd0)
  case Nil
  then show ?case by simp
next
  case (Cons f fs)
  show ?case
  proof (cases "map_of pd f")
    case None
    then show ?thesis using Cons [of jd0] by auto
  next
    case (Some v)
    then show ?thesis using Cons [of "AList.update f v jd0"] by (auto simp: update_conv')
  qed
qed

lemma map_of_new_job_data:
  "map_of (new_job_data extra_fields post_data job_id pg) field =
     (if field \<in> set extra_fields then Some (dict_get post_data field)
      else if field \<in> set [''title'', ''description''] \<and> map_of post_data field \<noteq> None
           then map_of post_data field
      else map_of [(''job_id'', JStr job_id), (''pg'', pg), (''status'', JStr ''created'')] field)"
  unfolding new_job_data_def Let_def
  by (simp only: map_of_fold_update map_of_fold_update_present)

lemma handle_post_jobs_cases:
  "(\<exists>e. handle_post_jobs self request context = (Inl e, self)) \<or>
   (\<exists>post_data process pg.
      json_body request = JObj post_data \<and> map_of post_data ''process'' = Some process \<and>
      getitem process ''process_graph'' = Inr pg \<and>
      handle_post_jobs self request context =
        (Inr (context\<lparr>status_code := 201,
                       headers := AList.update ''openeo-identifier'' (new_job_id (length (batch_jobs self)))
                                    (headers context)\<rparr>),
         self\<lparr>batch_jobs :=
                AList.update (new_job_id (length (batch_jobs self)))
                  (new_job_data (extra_job_metadata_fields self) post_data
                     (new_job_id (length (batch_jobs self))) pg)
                  (batch_jobs self)\<rparr>))"
proof (cases "json_body request")
  case (JObj post_data)
  show ?thesis
  proof (cases "map_of post_data ''process''")
    case None
    then show ?thesis using JObj by (simp add: handle_post_jobs_def)
  next
    case (Some process)
    show ?thesis
    proof (cases "getitem process ''process_graph''")
      case (Inl e)
      then show ?thesis using JObj Some by (simp add: handle_post_jobs_def)
    next
      case (Inr pg)
      then show ?thesis using JObj Some by (simp add: handle_post_jobs_def Let_def)
    qed
  qed
qed (simp_all add: handle_post_jobs_def)

lemma handle_post_jobs_success:
  assumes body: "json_body request = JObj post_data"
    and ok: "handle_post_jobs self request context = (Inr context', self')"
  shows "\<exists>pg. self' = self\<lparr>batch_jobs :=
                AList.update (new_job_id (length (batch_jobs self)))
                  (new_job_data (extra_job_metadata_fields self) post_data
                     (new_job_id (length (batch_jobs self))) pg)
                  (batch_jobs self)\<rparr> \<and>
           context' = context\<lparr>status_code := 201,
                       headers := AList.update ''openeo-identifier'' (new_job_id (length (batch_jobs self)))
                                    (headers context)\<rparr>"
proof -
  from handle_post_jobs_cases [of self request "context"]
  show ?thesis
  proof
    assume "\<exists>e. handle_post_jobs self request context = (Inl e, self)"
    then show ?thesis using ok by (simp only: prod.inject sum.distinct simp_thms ex_simps)
  next
    assume "\<exists>post_data process pg.
      json_body request = JObj post_data \<and> map_of post_data ''process'' = Some process \<and>
      getitem process ''process_graph'' = Inr pg \<and>
      handle_post_jobs self request context =
        (Inr (context\<lparr>status_code := 201,
                       headers := AList.update ''openeo-identifier'' (new_job_id (length (batch_jobs self)))
                                    (headers context)\<rparr>),
         self\<lparr>batch_jobs :=
                AList.update (new_job_id (length (batch_jobs self)))
                  (new_job_data (extra_job_metadata_fields self) post_data
                     (new_job_id (length (batch_jobs self))) pg)
                  (batch_jobs self)\<rparr>)"
    then obtain pd process pg where
      b: "json_body request = JObj pd"
      and r: "handle_post_jobs self request context =
        (Inr (context\<lparr>status_code := 201,
                       headers := AList.update ''openeo-identifier'' (new_job_id (length (batch_jobs self)))
                                    (headers context)\<rparr>),
         self\<lparr>batch_jobs :=
                AList.update (new_job_id (length (batch_jobs self)))
                  (new_job_data (extra_job_metadata_fields self) pd
                     (new_job_id (length (batch_jobs self))) pg)
                  (batch_jobs self)\<rparr>)"
      by blast
    have "pd = post_data" using b body by simp
    then show ?thesis using r ok by (intro exI [of _ pg]) simp
  qed
qed

lemma base_title:
  "map_of [(''job_id'', JStr i), (''pg'', pg), (''status'', JStr ''created'')] ''title'' = None"
  "map_of [(''job_id'', JStr i), (''pg'', pg), (''status'', JStr ''created'')] ''description'' = None"
  by simp_all

lemma base_other:
  "field \<noteq> ''job_id'' \<Longrightarrow> field \<noteq> ''pg'' \<Longrightarrow> field \<noteq> ''status'' \<Longrightarrow>
   map_of [(''job_id'', JStr i), (''pg'', pg), (''status'', JStr ''created'')] field = None"
  by simp

lemma new_job_data_fields:
  "field \<in> set extra_fields \<Longrightarrow>
     map_of (new_job_data extra_fields post_data job_id pg) field = Some (dict_get post_data field)"
  "field \<notin> set extra_fields \<Longrightarrow> field = ''title'' \<or> field = ''description'' \<Longrightarrow>
     map_of (new_job_data extra_fields post_data job_id pg) field = map_of post_data field"
  "field \<notin> set extra_fields \<Longrightarrow> field \<noteq> ''title'' \<Longrightarrow> field \<noteq> ''description'' \<Longrightarrow>
     map_of (new_job_data extra_fields post_data job_id pg) field =
     map_of [(''job_id'', JStr job_id), (''pg'', pg), (''status'', JStr ''created'')] field"
proof -
  show "field \<in> set extra_fields \<Longrightarrow>
     map_of (new_job_data extra_fields post_data job_id pg) field = Some (dict_get post_data field)"
    by (simp only: map_of_new_job_data if_True)
  show "map_of (new_job_data extra_fields post_data job_id pg) field = map_of post_data field"
    if "field \<notin> set extra_fields" "field = ''title'' \<or> field = ''description''"
  proof -
    have m: "field \<in> set [''title'', ''description'']"
      using that(2) by (simp only: list.set insert_iff) blast
    have b: "map_of [(''job_id'', JStr job_id), (''pg'', pg), (''status'', JStr ''created'')] field = None"
      using that(2) base_title by metis
    show ?thesis
    proof (cases "map_of post_data field")
      case None
      then show ?thesis using that(1) m b by (simp only: map_of_new_job_data if_False simp_thms)
    next
      case (Some v)
      then show ?thesis using that(1) m
        by (simp only: map_of_new_job_data if_False if_True simp_thms option.distinct)
    qed
  qed
  show "map_of (new_job_data extra_fields post_data job_id pg) field =
     map_of [(''job_id'', JStr job_id), (''pg'', pg), (''status'', JStr ''created'')] field"
    if "field \<notin> set extra_fields" "field \<noteq> ''title''" "field \<noteq> ''description''"
  proof -
    have m: "field \<notin> set [''title'', ''description'']"
      using that(2,3) by (simp only: list.set insert_iff empty_iff simp_thms)
    show ?thesis
      using that(1) m by (simp only: map_of_new_job_data if_False simp_thms)
  qed
qed

text \<open>The pool of \<^verbatim>\<open>get_pg\<close> raises no KeyError when every job record has its
  \<^verbatim>\<open>pg\<close> entry, and the records that \<^verbatim>\<open>_handle_post_jobs\<close> builds have it.\<close>

lemma job_pgs_total:
  "\<forall>job_data\<in>set jobs. map_of job_data ''pg'' \<noteq> None \<Longrightarrow>
     \<exists>pgs. job_pgs jobs = Inr pgs \<and> length pgs = length jobs"
  by (induction jobs) auto

lemma new_job_data_has_pg:
  "map_of (new_job_data extra_fields post_data job_id pg) ''pg'' \<noteq> None"
proof (cases "''pg'' \<in> set extra_fields")
  case True
  then show ?thesis by (simp only: new_job_data_fields(1)) simp
next
  case False
  then have "map_of (new_job_data extra_fields post_data job_id pg) ''pg'' =
               map_of [(''job_id'', JStr job_id), (''pg'', pg), (''status'', JStr ''created'')] ''pg''"
    by (rule new_job_data_fields(3)) simp_all
  then show ?thesis by simp
qed

text \<open>
  Claim C8, as amended. In the record of a new job, every configured extra metadata
  field is set, to the value of the request body when the body has the field and to
  \<^verbatim>\<open>None\<close> when it has not. \<^verbatim>\<open>title\<close> and \<^verbatim>\<open>description\<close> (when not configured as
  extra fields) are in the record exactly when they are in the body, with the body's
  value. No other field is added to the three initial entries.
\<close>

theorem handle_post_jobs_metadata:
  assumes body: "json_body request = JObj post_data"
    and ok: "handle_post_jobs self request context = (Inr context', self')"
  shows "\<exists>job_data.
           map_of (batch_jobs self') (new_job_id (length (batch_jobs self))) = Some job_data \<and>
           (\<forall>field. field \<in> set (extra_job_metadata_fields self) \<longrightarrow>
              map_of job_data field = Some (dict_get post_data field)) \<and>
           (\<forall>field. (field = ''title'' \<or> field = ''description'') \<and>
              field \<notin> set (extra_job_metadata_fields self) \<longrightarrow>
              map_of job_data field = map_of post_data field) \<and>
           (\<forall>field. field \<notin> set (extra_job_metadata_fields self) \<and>
              field \<noteq> ''title'' \<and> field \<noteq> ''description'' \<and>
              field \<noteq> ''job_id'' \<and> field \<noteq> ''pg'' \<and> field \<noteq> ''status'' \<longrightarrow>
              map_of job_data field = None)"
proof -
  from handle_post_jobs_success [OF body ok]
  obtain pg where
    self': "self' = self\<lparr>batch_jobs :=
                AList.update (new_job_id (length (batch_jobs self)))
                  (new_job_data (extra_job_metadata_fields self) post_data
                     (new_job_id (length (batch_jobs self))) pg)
                  (batch_jobs self)\<rparr>"
    by blast
  let ?id = "new_job_id (length (batch_jobs self))"
  let ?jd = "new_job_data (extra_job_metadata_fields self) post_data ?id pg"
  have 1: "map_of (batch_jobs self') ?id = Some ?jd"
    by (simp add: self' update_conv')
  show ?thesis
  proof (intro exI [of _ ?jd] conjI allI impI; (elim conjE)?)
    show "map_of (batch_jobs self') ?id = Some ?jd" by (rule 1)
  next
    fix field assume "field \<in> set (extra_job_metadata_fields self)"
    then show "map_of ?jd field = Some (dict_get post_data field)"
      by (rule new_job_data_fields(1))
  next
    fix field assume "field = ''title'' \<or> field = ''description''"
      "field \<notin> set (extra_job_metadata_fields self)"
    then show "map_of ?jd field = map_of post_data field"
      by (rule new_job_data_fields(2) [rotated])
  next
    fix field
    assume a: "field \<notin> set (extra_job_metadata_fields self)" "field \<noteq> ''title''"
      "field \<noteq> ''description''" and b: "field \<noteq> ''job_id''" "field \<noteq> ''pg''" "field \<noteq> ''status''"
    have "map_of ?jd field = map_of [(''job_id'', JStr ?id), (''pg'', pg), (''status'', JStr ''created'')] field"
      using a by (rule new_job_data_fields(3))
    also have "\<dots> = None" using b by (rule base_other)
    finally show "map_of ?jd field = None" .
  qed
qed

theorem handle_post_jobs_metadata_witness:
  "json_body titled_request =
     JObj [(''process'', JObj [(''process_graph'', JObj [])]), (''title'', JStr ''NDVI'')] \<and>
   fst (handle_post_jobs extra_fields_backend titled_request fresh_context) =
     Inr \<lparr>status_code = 201, headers = [(''openeo-identifier'', ''job-000'')]\<rparr> \<and>
   (\<exists>job_data.
      map_of (batch_jobs (snd (handle_post_jobs extra_fields_backend titled_request fresh_context)))
        (new_job_id (length (batch_jobs extra_fields_backend))) = Some job_data \<and>
      map_of job_data ''project'' = Some JNull \<and>
      map_of job_data ''title'' = Some (JStr ''NDVI'') \<and>
      map_of job_data ''description'' = None \<and>
      map_of job_data ''budget'' = None)"
proof -
  let ?pd = "[(''process'', JObj [(''process_graph'', JObj [])]), (''title'', JStr ''NDVI'')]"
  let ?r = "handle_post_jobs extra_fields_backend titled_request fresh_context"
  have body: "json_body titled_request = JObj ?pd"
    by (simp add: titled_request_def)
  have res: "fst ?r = Inr \<lparr>status_code = 201, headers = [(''openeo-identifier'', ''job-000'')]\<rparr>"
    by code_simp
  then have ok: "?r = (Inr \<lparr>status_code = 201, headers = [(''openeo-identifier'', ''job-000'')]\<rparr>, snd ?r)"
    by (simp add: prod_eq_iff)
  have ex: "extra_job_metadata_fields extra_fields_backend = [''project'']"
    by (simp add: extra_fields_backend_def)
  from handle_post_jobs_metadata [OF body ok]
  obtain job_data where
    j: "map_of (batch_jobs (snd ?r)) (new_job_id (length (batch_jobs extra_fields_backend))) = Some job_data"
    and e: "\<And>field. field \<in> set (extra_job_metadata_fields extra_fields_backend) \<Longrightarrow>
              map_of job_data field = Some (dict_get ?pd field)"
    and t: "\<And>field. (field = ''title'' \<or> field = ''description'') \<and>
              field \<notin> set (extra_job_metadata_fields extra_fields_backend) \<Longrightarrow>
              map_of job_data field = map_of ?pd field"
    and n: "\<And>field. field \<notin> set (extra_job_metadata_fields extra_fields_backend) \<and>
              field \<noteq> ''title'' \<and> field \<noteq> ''description'' \<and>
              field \<noteq> ''job_id'' \<and> field \<noteq> ''pg'' \<and> field \<noteq> ''status'' \<Longrightarrow>
              map_of job_data field = None"
    by blast
  have "map_of job_data ''project'' = Some JNull"
    using e [of "''project''"] by (simp add: ex dict_get_def)
  moreover have "map_of job_data ''title'' = Some (JStr ''NDVI'')"
    using t [of "''title''"] by (simp add: ex)
  moreover have "map_of job_data ''description'' = None"
    using t [of "''description''"] by (simp add: ex)
  moreover have "map_of job_data ''budget'' = None"
    using n [of "''budget''"] by (simp add: ex)
  ultimately show ?thesis
    using body res j by blast
qed

text \<open>
  The claim as written adds no field that the body lacks. With \<^verbatim>\<open>project\<close> configured
  as an extra field and a body without it, the record of the new job holds
  \<^verbatim>\<open>project\<close> with the value \<^verbatim>\<open>None\<close>.
\<close>

theorem handle_post_jobs_metadata_counterexample:
  "map_of [(''process'', JObj [(''process_graph'', JObj [])]), (''title'', JStr ''NDVI'')] ''project'' = None \<and>
   json_body titled_request = JObj [(''process'', JObj [(''process_graph'', JObj [])]), (''title'', JStr ''NDVI'')] \<and>
   batch_jobs (snd (handle_post_jobs extra_fields_backend titled_request fresh_context)) =
     [(''job-000'', [(''job_id'', JStr ''job-000''), (''pg'', JObj []), (''status'', JStr ''created''),
                    (''title'', JStr ''NDVI''), (''project'', JNull)])]"
  by code_simp

subsection \<open>Job ids in creation order\<close>

lemma digit_value_nth: "k < 10 \<Longrightarrow> digit_value (''0123456789'' ! k) = k"
proof -
  assume "k < 10"
  then have "k = 0 \<or> k = 1 \<or> k = 2 \<or> k = 3 \<or> k = 4 \<or> k = 5 \<or> k = 6 \<or> k = 7 \<or> k = 8 \<or> k = 9"
    by arith
  then show ?thesis
    by (elim disjE) (simp_all add: digit_value_def)
qed

lemma decimal_value_snoc: "decimal_value (s @ [c]) = 10 * decimal_value s + digit_value c"
  by (simp add: decimal_value_def)

lemma decimal_value_decimal: "decimal_value (decimal n) = n"
proof (induction n rule: decimal.induct)
  case (1 n)
  show ?case
  proof (cases "n < 10")
    case True
    then have "decimal n = [''0123456789'' ! n]" by (subst decimal.simps) simp
    then show ?thesis using True by (simp add: decimal_value_def digit_value_nth)
  next
    case False
    then have "decimal n = decimal (n div 10) @ [''0123456789'' ! (n mod 10)]"
      by (subst decimal.simps) simp
    then show ?thesis
      using 1 False by (simp add: decimal_value_snoc digit_value_nth)
  qed
qed

lemma decimal_value_zeros: "decimal_value (replicate m (CHR ''0'') @ s) = decimal_value s"
proof -
  have "foldl (\<lambda>a c. 10 * a + digit_value c) 0 (replicate m (CHR ''0'')) = 0"
    by (induction m) (simp_all add: digit_value_def)
  then show ?thesis by (simp add: decimal_value_def)
qed

lemma job_number_new_job_id: "job_number (new_job_id n) = n"
  by (simp add: job_number_def new_job_id_def format_03d_def decimal_value_zeros decimal_value_decimal)

lemma new_job_id_inj: "new_job_id i = new_job_id j \<Longrightarrow> i = j"
  by (metis job_number_new_job_id)

lemma update_fresh: "k \<notin> set (map fst al) \<Longrightarrow> AList.update k v al = al @ [(k, v)]"
  by (induction al) auto

lemma numbered_length: "numbered self n \<Longrightarrow> length (batch_jobs self) = n"
  unfolding numbered_def by (metis length_map length_upt minus_nat.diff_0)

lemma numbered_fresh: "numbered self n \<Longrightarrow> new_job_id n \<notin> set (map fst (batch_jobs self))"
  unfolding numbered_def by (auto dest: new_job_id_inj)

lemma new_job_data_status:
  "''status'' \<notin> set extra_fields \<Longrightarrow>
     map_of (new_job_data extra_fields post_data job_id pg) ''status'' = Some (JStr ''created'')"
  by (subst new_job_data_fields(3)) simp_all

lemma handle_post_jobs_numbered:
  assumes inv: "numbered self n"
  shows "(\<exists>e. handle_post_jobs self request context = (Inl e, self)) \<or>
         (\<exists>c job_data.
            handle_post_jobs self request context =
              (Inr c, self\<lparr>batch_jobs := batch_jobs self @ [(new_job_id n, job_data)]\<rparr>) \<and>
            map_of (headers c) ''openeo-identifier'' = Some (new_job_id n) \<and> status_code c = 201 \<and>
            (''status'' \<notin> set (extra_job_metadata_fields self) \<longrightarrow>
               map_of job_data ''status'' = Some (JStr ''created'')))"
proof -
  have len: "length (batch_jobs self) = n" using inv by (rule numbered_length)
  from handle_post_jobs_cases [of self request "context"]
  show ?thesis
  proof
    assume "\<exists>e. handle_post_jobs self request context = (Inl e, self)"
    then show ?thesis ..
  next
    assume "\<exists>post_data process pg.
      json_body request = JObj post_data \<and> map_of post_data ''process'' = Some process \<and>
      getitem process ''process_graph'' = Inr pg \<and>
      handle_post_jobs self request context =
        (Inr (context\<lparr>status_code := 201,
                       headers := AList.update ''openeo-identifier'' (new_job_id (length (batch_jobs self)))
                                    (headers context)\<rparr>),
         self\<lparr>batch_jobs :=
                AList.update (new_job_id (length (batch_jobs self)))
                  (new_job_data (extra_job_metadata_fields self) post_data
                     (new_job_id (length (batch_jobs self))) pg)
                  (batch_jobs self)\<rparr>)"
    then obtain post_data pg where
      r: "handle_post_jobs self request context =
        (Inr (context\<lparr>status_code := 201,
                       headers := AList.update ''openeo-identifier'' (new_job_id n) (headers context)\<rparr>),
         self\<lparr>batch_jobs :=
                AList.update (new_job_id n)
                  (new_job_data (extra_job_metadata_fields self) post_data (new_job_id n) pg)
                  (batch_jobs self)\<rparr>)"
      unfolding len by blast
    let ?c = "context\<lparr>status_code := 201,
                       headers := AList.update ''openeo-identifier'' (new_job_id n) (headers context)\<rparr>"
    let ?jd = "new_job_data (extra_job_metadata_fields self) post_data (new_job_id n) pg"
    have u: "AList.update (new_job_id n) ?jd (batch_jobs self) = batch_jobs self @ [(new_job_id n, ?jd)]"
      using numbered_fresh [OF inv] by (rule update_fresh)
    have 1: "handle_post_jobs self request context =
              (Inr ?c, self\<lparr>batch_jobs := batch_jobs self @ [(new_job_id n, ?jd)]\<rparr>)"
      using r unfolding u .
    have 2: "map_of (headers ?c) ''openeo-identifier'' = Some (new_job_id n)"
      by (simp add: update_conv')
    have 3: "status_code ?c = 201" by simp
    have 4: "''status'' \<notin> set (extra_job_metadata_fields self) \<longrightarrow>
               map_of ?jd ''status'' = Some (JStr ''created'')"
      by (simp add: new_job_data_status)
    from 1 2 3 4 show ?thesis by blast
  qed
qed

lemma numbered_append:
  "numbered self n \<Longrightarrow> numbered (self\<lparr>batch_jobs := batch_jobs self @ [(new_job_id n, job_data)]\<rparr>) (Suc n)"
  by (simp add: numbered_def)

lemma all_created_append:
  "all_created self \<Longrightarrow> map_of job_data ''status'' = Some (JStr ''created'') \<Longrightarrow>
     all_created (self\<lparr>batch_jobs := batch_jobs self @ [(k, job_data)]\<rparr>)"
  by (simp add: all_created_def)

lemma upt_shift: "[n..<n + Suc k] = n # [Suc n..<Suc n + k]"
proof -
  have "n < n + Suc k" by simp
  then have "[n..<n + Suc k] = n # [Suc n..<n + Suc k]" by (rule upt_conv_Cons)
  then show ?thesis by (simp only: add_Suc_right add_Suc)
qed

lemma post_jobs_all_numbered:
  assumes "numbered self n" and "post_jobs_all self requests = (responses, self')"
  shows "map (\<lambda>c. map_of (headers c) ''openeo-identifier'') (successes responses) =
           map (\<lambda>i. Some (new_job_id i)) [n..<n + length (successes responses)]
       \<and> (\<forall>c\<in>set (successes responses). status_code c = 201)
       \<and> numbered self' (n + length (successes responses))
       \<and> (''status'' \<notin> set (extra_job_metadata_fields self) \<and> all_created self \<longrightarrow> all_created self')"
  using assms
proof (induction requests arbitrary: self n responses self')
  case Nil
  then show ?case by simp
next
  case (Cons rc rest)
  obtain request "context" where rc: "rc = (request, context)" by (cases rc)
  obtain r s1 where h: "handle_post_jobs self request context = (r, s1)"
    by (cases "handle_post_jobs self request context")
  obtain rs s2 where p: "post_jobs_all s1 rest = (rs, s2)"
    by (cases "post_jobs_all s1 rest")
  have resp: "responses = r # rs" and s2: "self' = s2"
    using Cons.prems(2) by (simp_all add: rc h p)
  from handle_post_jobs_numbered [OF Cons.prems(1), of request "context"]
  show ?case
  proof
    assume "\<exists>e. handle_post_jobs self request context = (Inl e, self)"
    then obtain e where r: "r = Inl e" and s1: "s1 = self"
      using h by auto
    from Cons.IH [OF Cons.prems(1) p [unfolded s1]]
    show ?thesis by (simp add: resp r s2)
  next
    assume "\<exists>c job_data.
            handle_post_jobs self request context =
              (Inr c, self\<lparr>batch_jobs := batch_jobs self @ [(new_job_id n, job_data)]\<rparr>) \<and>
            map_of (headers c) ''openeo-identifier'' = Some (new_job_id n) \<and> status_code c = 201 \<and>
            (''status'' \<notin> set (extra_job_metadata_fields self) \<longrightarrow>
               map_of job_data ''status'' = Some (JStr ''created''))"
    then obtain c job_data where r: "r = Inr c"
      and s1: "s1 = self\<lparr>batch_jobs := batch_jobs self @ [(new_job_id n, job_data)]\<rparr>"
      and hd: "map_of (headers c) ''openeo-identifier'' = Some (new_job_id n)"
      and code: "status_code c = 201"
      and st: "''status'' \<notin> set (extra_job_metadata_fields self) \<longrightarrow>
               map_of job_data ''status'' = Some (JStr ''created'')"
      using h by auto
    have n1: "numbered s1 (Suc n)"
      unfolding s1 using Cons.prems(1) by (rule numbered_append)
    have ex: "extra_job_metadata_fields s1 = extra_job_metadata_fields self"
      by (simp add: s1)
    have ac: "all_created s1" if "''status'' \<notin> set (extra_job_metadata_fields self)" "all_created self"
      unfolding s1 using that st by (simp add: all_created_append)
    note IH = Cons.IH [OF n1 p]
    have len: "n + length (successes (Inr c # rs)) = Suc n + length (successes rs)"
      by simp
    have "map (\<lambda>c. map_of (headers c) ''openeo-identifier'') (successes (Inr c # rs)) =
            map (\<lambda>i. Some (new_job_id i)) [n..<n + length (successes (Inr c # rs))]"
    proof -
      have u: "[n..<n + length (successes (Inr c # rs))] = n # [Suc n..<Suc n + length (successes rs)]"
        by (simp only: successes.simps length_Cons upt_shift)
      have m: "map (\<lambda>c. map_of (headers c) ''openeo-identifier'') (successes rs) =
                 map (\<lambda>i. Some (new_job_id i)) [Suc n..<Suc n + length (successes rs)]"
        using IH by blast
      show ?thesis
        unfolding u by (simp only: successes.simps list.map m hd)
    qed
    moreover have "\<forall>c\<in>set (successes (Inr c # rs)). status_code c = 201"
      using IH code by simp
    moreover have "numbered s2 (n + length (successes (Inr c # rs)))"
      using IH unfolding len by blast
    moreover have "''status'' \<notin> set (extra_job_metadata_fields self) \<and> all_created self \<longrightarrow>
                     all_created s2"
      using IH ac unfolding ex by blast
    ultimately show ?thesis
      unfolding resp r s2 by blast
  qed
qed

text \<open>
  Claim C4, as amended. For every sequence of creation requests on a backend that starts
  with an empty registry, the requests that succeed answer 201 with the header
  \<^verbatim>\<open>openeo-identifier\<close> carrying \<^verbatim>\<open>job-\<close> and the sequence numbers 0, 1, 2, ... in
  order, zero-padded to width 3; the registry holds exactly these ids, in this order
  and without repetition, and the number read back from an id is its sequence number.
  When \<^verbatim>\<open>status\<close> is not one of the extra metadata fields, every job is stored with
  the status \<^verbatim>\<open>created\<close>.
\<close>

theorem post_jobs_all_job_ids:
  assumes fresh: "batch_jobs self = []"
    and run: "post_jobs_all self requests = (responses, self')"
  shows "map (\<lambda>c. map_of (headers c) ''openeo-identifier'') (successes responses) =
           map (\<lambda>i. Some (new_job_id i)) [0..<length (successes responses)]
       \<and> (\<forall>c\<in>set (successes responses). status_code c = 201)
       \<and> map fst (batch_jobs self') = map new_job_id [0..<length (successes responses)]
       \<and> distinct (map fst (batch_jobs self'))
       \<and> (\<forall>i. job_number (new_job_id i) = i \<and>
                new_job_id i = ''job-'' @ replicate (3 - length (decimal i)) (CHR ''0'') @ decimal i)
       \<and> (''status'' \<notin> set (extra_job_metadata_fields self) \<longrightarrow>
            (\<forall>job_data\<in>set (map snd (batch_jobs self')).
               map_of job_data ''status'' = Some (JStr ''created'')))"
proof -
  have n0: "numbered self 0" by (simp add: numbered_def fresh)
  have a0: "all_created self" by (simp add: all_created_def fresh)
  note P = post_jobs_all_numbered [OF n0 run]
  have 1: "map (\<lambda>c. map_of (headers c) ''openeo-identifier'') (successes responses) =
           map (\<lambda>i. Some (new_job_id i)) [0..<length (successes responses)]"
    using P by simp
  have 2: "\<forall>c\<in>set (successes responses). status_code c = 201"
    using P by blast
  have 3: "map fst (batch_jobs self') = map new_job_id [0..<length (successes responses)]"
    using P by (simp add: numbered_def)
  have "inj_on new_job_id (set [0..<length (successes responses)])"
    by (rule inj_onI) (rule new_job_id_inj)
  then have 4: "distinct (map fst (batch_jobs self'))"
    unfolding 3 by (simp add: distinct_map)
  have 5: "job_number (new_job_id i) = i \<and>
           new_job_id i = ''job-'' @ replicate (3 - length (decimal i)) (CHR ''0'') @ decimal i" for i
    by (simp add: job_number_new_job_id) (simp add: new_job_id_def format_03d_def)
  have 6: "''status'' \<notin> set (extra_job_metadata_fields self) \<longrightarrow>
            (\<forall>job_data\<in>set (map snd (batch_jobs self')).
               map_of job_data ''status'' = Some (JStr ''created''))"
    using P a0 unfolding all_created_def by blast
  from 1 2 3 4 5 6 show ?thesis by blast
qed

theorem post_jobs_all_job_ids_witness:
  "batch_jobs DummyBackend_init = [] \<and>
   fst (post_jobs_all DummyBackend_init three_requests) =
     [Inr \<lparr>status_code = 201, headers = [(''openeo-identifier'', ''job-000'')]\<rparr>,
      Inl TypeError,
      Inr \<lparr>status_code = 201, headers = [(''openeo-identifier'', ''job-001'')]\<rparr>] \<and>
   map fst (batch_jobs (snd (post_jobs_all DummyBackend_init three_requests))) = [''job-000'', ''job-001''] \<and>
   ''status'' \<notin> set (extra_job_metadata_fields DummyBackend_init) \<and>
   list_all (\<lambda>job_data. map_of job_data ''status'' = Some (JStr ''created''))
     (map snd (batch_jobs (snd (post_jobs_all DummyBackend_init three_requests))))"
proof -
  let ?run = "post_jobs_all DummyBackend_init three_requests"
  have fresh: "batch_jobs DummyBackend_init = []"
    by (simp add: DummyBackend_init_def)
  have ex: "''status'' \<notin> set (extra_job_metadata_fields DummyBackend_init)"
    by (simp add: DummyBackend_init_def)
  have r: "fst ?run =
     [Inr \<lparr>status_code = 201, headers = [(''openeo-identifier'', ''job-000'')]\<rparr>,
      Inl TypeError,
      Inr \<lparr>status_code = 201, headers = [(''openeo-identifier'', ''job-001'')]\<rparr>]"
    by code_simp
  have len: "length (successes (fst ?run)) = 2"
    unfolding r by simp
  have ids: "map new_job_id [0..<2] = [''job-000'', ''job-001'']"
    by code_simp
  have run: "?run = (fst ?run, snd ?run)" by simp
  note T = post_jobs_all_job_ids [OF fresh run]
  have "map fst (batch_jobs (snd ?run)) = [''job-000'', ''job-001'']"
    using T unfolding len ids by blast
  moreover have "\<forall>job_data\<in>set (map snd (batch_jobs (snd ?run))).
      map_of job_data ''status'' = Some (JStr ''created'')"
    using T ex by blast
  ultimately show ?thesis
    using fresh r ex unfolding list_all_iff by blast
qed

text \<open>
  The claim as written stores every new job with the status \<^verbatim>\<open>created\<close>. With
  \<^verbatim>\<open>status\<close> configured as an extra metadata field and a body without it, the new job
  is stored with the status \<^verbatim>\<open>None\<close>.
\<close>

theorem post_jobs_status_field_counterexample:
  "batch_jobs status_field_backend = [] \<and>
   fst (handle_post_jobs status_field_backend create_request fresh_context) =
     Inr \<lparr>status_code = 201, headers = [(''openeo-identifier'', ''job-000'')]\<rparr> \<and>
   batch_jobs (snd (handle_post_jobs status_field_backend create_request fresh_context)) =
     [(''job-000'', [(''job_id'', JStr ''job-000''), (''pg'', JObj []), (''status'', JNull)])]"
  by code_simp

subsection \<open>The scripted result\<close>

lemma dict_result_backend_fields:
  "next_result dict_result_backend = PyData (JObj [(''a'', JInt 1)])"
  "job_status dict_result_backend ''job-000'' = Inr (JStr ''finished'')"
  "get_job_id dict_result_backend asset_request = Inr ''job-000''"
  by code_simp+

lemma handle_get_job_result_asset_finished:
  assumes "get_job_id self request = Inr job_id" and "job_status self job_id = Inr (JStr ''finished'')"
  shows "handle_get_job_result_asset self request = (Inr (next_result self), self)"
  using assms by (simp add: handle_get_job_result_asset_def)

text \<open>
  Claim C6. \<^verbatim>\<open>_handle_post_result\<close> turns a mapping, a sequence or a text into bytes,
  but \<^verbatim>\<open>_handle_get_job_result_asset\<close> returns \<^verbatim>\<open>next_result\<close> as it is. With the
  mapping \<^verbatim>\<open>{"a": 1}\<close> as scripted result and a finished job, the result asset handler
  returns the mapping itself and not its JSON serialisation as bytes, which the handler
  of the synchronous execution returns for the same backend.
\<close>

theorem result_asset_not_normalized:
  "job_status dict_result_backend ''job-000'' = Inr (JStr ''finished'') \<and>
   next_result dict_result_backend = PyData (JObj [(''a'', JInt 1)]) \<and>
   fst (handle_get_job_result_asset dict_result_backend asset_request) = Inr (PyData (JObj [(''a'', JInt 1)])) \<and>
   fst (handle_get_job_result_asset dict_result_backend asset_request) \<noteq>
     Inr (PyBytes (encode_utf8 (json_dumps (JObj [(''a'', JInt 1)])))) \<and>
   fst (handle_post_result json_dumps encode_utf8 dict_result_backend sync_request) =
     Inr (encode_utf8 (json_dumps (JObj [(''a'', JInt 1)])))"
proof -
  have a: "fst (handle_get_job_result_asset dict_result_backend asset_request) =
             Inr (PyData (JObj [(''a'', JInt 1)]))"
    by (simp add: handle_get_job_result_asset_def dict_result_backend_fields)
  have b: "fst (handle_post_result json_dumps encode_utf8 dict_result_backend sync_request) =
     Inr (encode_utf8 (json_dumps (JObj [(''a'', JInt 1)])))"
    by (simp add: handle_post_result_def sync_request_def dict_result_backend_fields)
  show ?thesis
    using a b by (simp add: dict_result_backend_fields)
qed

end
